theory Spec2Isabelle
  imports Complex_Main "HOL-Library.Sublist"
begin

section \<open>JavaScript strings and values\<close>

text \<open>
  Strings are lists of characters. The case mappings and character classes are those of
  JavaScript on ASCII text: \<open>toUpperCase\<close> and \<open>toLowerCase\<close> move the 26 letters
  and leave every other character alone, \<open>\s\<close> and \<open>trim\<close> know the six ASCII
  white-space characters (tab, line feed, vertical tab, form feed, carriage return,
  space), and \<open>\w\<close> is a letter, a digit or the underscore. Numbers are exact
  (integers and rationals): the rounding of JavaScript's doubles is not part of the model.
  A field that JSON may leave \<open>null\<close> is an \<open>option\<close>. The location normalizer,
  whose subject is the character classes themselves, is modelled on the whole 8-bit range
  with its own upper-casing and white space (see its section).
\<close>

definition is_upper :: "char \<Rightarrow> bool" where
  "is_upper c = (65 \<le> (of_char c :: nat) \<and> (of_char c :: nat) \<le> 90)"

definition is_lower :: "char \<Rightarrow> bool" where
  "is_lower c = (97 \<le> (of_char c :: nat) \<and> (of_char c :: nat) \<le> 122)"

definition is_digit :: "char \<Rightarrow> bool" where
  "is_digit c = (48 \<le> (of_char c :: nat) \<and> (of_char c :: nat) \<le> 57)"

definition is_space :: "char \<Rightarrow> bool" where
  "is_space c =
     ((9 \<le> (of_char c :: nat) \<and> (of_char c :: nat) \<le> 13) \<or> (of_char c :: nat) = 32)"

definition is_word_char :: "char \<Rightarrow> bool" where
  "is_word_char c = (is_upper c \<or> is_lower c \<or> is_digit c \<or> c = CHR ''_'')"

definition toUpperChar :: "char \<Rightarrow> char" where
  "toUpperChar c = (if is_lower c then char_of ((of_char c :: nat) - 32) else c)"

definition toLowerChar :: "char \<Rightarrow> char" where
  "toLowerChar c = (if is_upper c then char_of ((of_char c :: nat) + 32) else c)"

definition toUpperCase :: "string \<Rightarrow> string" where
  "toUpperCase s = map toUpperChar s"

definition toLowerCase :: "string \<Rightarrow> string" where
  "toLowerCase s = map toLowerChar s"

definition js_trim :: "string \<Rightarrow> string" where
  "js_trim s = rev (dropWhile is_space (rev (dropWhile is_space s)))"

text \<open>\<open>s.includes(n)\<close>: \<open>n\<close> occurs in \<open>s\<close> as a contiguous substring.\<close>

fun js_includes :: "string \<Rightarrow> string \<Rightarrow> bool" where
  "js_includes [] n = (n = [])"
| "js_includes (c # cs) n = (prefix n (c # cs) \<or> js_includes cs n)"

text \<open>\<open>s.replace(pat, rep)\<close> with a string pattern: the first occurrence only.\<close>

fun replace_first :: "string \<Rightarrow> string \<Rightarrow> string \<Rightarrow> string" where
  "replace_first pat rep [] = (if pat = [] then rep else [])"
| "replace_first pat rep (c # cs) =
     (if prefix pat (c # cs) then rep @ drop (length pat) (c # cs)
      else c # replace_first pat rep cs)"

text \<open>The decimal rendering of a non-negative integer (\<open>toString\<close>, template literals).\<close>

definition digit_char :: "nat \<Rightarrow> char" where
  "digit_char d = char_of (48 + d)"

fun show_nat :: "nat \<Rightarrow> string" where
  "show_nat n = (if n < 10 then [digit_char n] else show_nat (n div 10) @ [digit_char (n mod 10)])"

declare show_nat.simps [simp del]

text \<open>Truthiness of a string or number that may be \<open>null\<close>.\<close>

definition truthy_str :: "string option \<Rightarrow> bool" where
  "truthy_str s = (case s of None \<Rightarrow> False | Some t \<Rightarrow> t \<noteq> [])"

definition truthy_num :: "nat option \<Rightarrow> bool" where
  "truthy_num n = (case n of None \<Rightarrow> False | Some k \<Rightarrow> k \<noteq> 0)"

text \<open>
  A timestamp field holds \<open>null\<close> or a well-formed ISO date, modelled by its time value
  in milliseconds since the epoch. \<open>new Date(null).getTime()\<close> is 0, and so is
  \<open>null * 1000\<close>.
\<close>

definition ms_of :: "int option \<Rightarrow> int" where
  "ms_of d = (case d of None \<Rightarrow> 0 | Some t \<Rightarrow> t)"

definition num_of :: "rat option \<Rightarrow> rat" where
  "num_of d = (case d of None \<Rightarrow> 0 | Some t \<Rightarrow> t)"

text \<open>\<open>getUTCMonth\<close> of a time value: the month, from 0, of the proleptic Gregorian date.\<close>

definition getUTCMonth :: "int \<Rightarrow> nat" where
  "getUTCMonth t =
     (let days = t div 86400000;
          z = days + 719468;
          doe = z mod 146097;
          yoe = (doe - doe div 1460 + doe div 36524 - doe div 146096) div 365;
          doy = doe - (365 * yoe + yoe div 4 - yoe div 100);
          mp = (5 * doy + 2) div 153
      in nat (if mp < 10 then mp + 2 else mp - 10))"

text \<open>
  The outcome of an awaited upstream request: rejected with a message, or resolved with
  the response's data. A thrown \<open>Error\<close> carries its message; \<open>TypeError\<close> is the
  engine's own exception for a property read on \<open>null\<close>.
\<close>

datatype 'a fetch = Rejected string | Resolved 'a

datatype error = Error string | TypeError

text \<open>
  A plain object whose keys are non-negative integers: \<open>Object.keys\<close> lists such keys in
  ascending numeric order, and an assignment to a present key overwrites its value.
\<close>

type_synonym 'v js_object = "(nat \<times> 'v) list"

fun obj_set :: "nat \<Rightarrow> 'v \<Rightarrow> 'v js_object \<Rightarrow> 'v js_object" where
  "obj_set k v [] = [(k, v)]"
| "obj_set k v ((k', v') # rest) =
     (if k < k' then (k, v) # (k', v') # rest
      else if k = k' then (k, v) # rest
      else (k', v') # obj_set k v rest)"

definition obj_get :: "'v js_object \<Rightarrow> nat \<Rightarrow> 'v option" where
  "obj_get obj k = map_of obj k"

definition obj_keys :: "'v js_object \<Rightarrow> nat list" where
  "obj_keys obj = map fst obj"

section \<open>Session-type mapping\<close>

text \<open>
  \<^verbatim>\<open>const mapSessionType = (type) => {
    if (!type) return "Race";
    const map = { R: "Race", Q: "Qualifying", FP1: "Practice 1", FP2: "Practice 2",
                  FP3: "Practice 3", S: "Sprint", RACE: "Race", QUALIFYING: "Qualifying" };
    return map[type.toUpperCase().trim()] || "Race";
  };\<close>
  The argument is a string or absent; the empty string is falsy. The key is upper-cased
  before the lookup and no member that an object literal inherits has an all-capitals
  name, so the lookup sees the eight own keys only.
\<close>

definition session_type_map :: "(string \<times> string) list" where
  "session_type_map =
     [(''R'', ''Race''), (''Q'', ''Qualifying''), (''FP1'', ''Practice 1''),
      (''FP2'', ''Practice 2''), (''FP3'', ''Practice 3''), (''S'', ''Sprint''),
      (''RACE'', ''Race''), (''QUALIFYING'', ''Qualifying'')]"

definition mapSessionType :: "string option \<Rightarrow> string" where
  "mapSessionType type =
     (case type of
        None \<Rightarrow> ''Race''
      | Some t \<Rightarrow>
          if t = [] then ''Race''
          else (case map_of session_type_map (js_trim (toUpperCase t)) of
                  Some v \<Rightarrow> v
                | None \<Rightarrow> ''Race''))"

text \<open>The session names of the upstream API.\<close>

definition canonical_labels :: "string list" where
  "canonical_labels =
     [''Race'', ''Qualifying'', ''Practice 1'', ''Practice 2'', ''Practice 3'', ''Sprint'']"

section \<open>Location normalizer\<close>

text \<open>
  \<^verbatim>\<open>const normalizeString = (str) =>
    str ? str.replace(/[_\-]/g, " ").toUpperCase().replace(/[^A-Z\s]/g, "").trim() : "";\<close>
  The character classes are this function's subject, so it is modelled on every string of
  8-bit characters, read as the code units U+0000 to U+00FF, with JavaScript's own classes
  there. Upper-casing can yield two units (U+00DF, the sharp s, becomes SS) or a unit above
  U+00FF (U+00B5 becomes U+039C, U+00FF becomes U+0178), so the strings between the steps
  are lists of code units, as numbers. \<open>\s\<close> and \<open>trim\<close> know the same white space:
  tab to carriage return, space, U+00A0, U+1680, U+2000 to U+200A, U+2028, U+2029, U+202F,
  U+205F, U+3000 and U+FEFF.
\<close>

definition replace_sep :: "char \<Rightarrow> char" where
  "replace_sep c = (if c = CHR ''_'' \<or> c = CHR ''-'' then CHR '' '' else c)"

text \<open>
  \<open>toUpperCase\<close> on one 8-bit character: the letters a to z and U+00E0 to U+00FE
  (U+00F7, the division sign, excepted) move down by 32; every other character is its own
  upper case.
\<close>

definition upperCaseUnits :: "char \<Rightarrow> nat list" where
  "upperCaseUnits c =
     (if (97 \<le> (of_char c :: nat) \<and> (of_char c :: nat) \<le> 122)
         \<or> (224 \<le> (of_char c :: nat) \<and> (of_char c :: nat) \<le> 254 \<and> (of_char c :: nat) \<noteq> 247)
      then [(of_char c :: nat) - 32]
      else if (of_char c :: nat) = 223 then [83, 83]
      else if (of_char c :: nat) = 181 then [924]
      else if (of_char c :: nat) = 255 then [376]
      else [of_char c])"

definition unit_space :: "nat \<Rightarrow> bool" where
  "unit_space u =
     ((9 \<le> u \<and> u \<le> 13) \<or> u = 32 \<or> u = 160 \<or> u = 5760 \<or> (8192 \<le> u \<and> u \<le> 8202)
      \<or> u = 8232 \<or> u = 8233 \<or> u = 8239 \<or> u = 8287 \<or> u = 12288 \<or> u = 65279)"

text \<open>What \<open>replace(/[^A-Z\s]/g, "")\<close> leaves in place.\<close>

definition unit_kept :: "nat \<Rightarrow> bool" where
  "unit_kept u = ((65 \<le> u \<and> u \<le> 90) \<or> unit_space u)"

definition trim_units :: "nat list \<Rightarrow> nat list" where
  "trim_units us = rev (dropWhile unit_space (rev (dropWhile unit_space us)))"

text \<open>White space among the 8-bit characters.\<close>

definition is_white :: "char \<Rightarrow> bool" where
  "is_white c = unit_space (of_char c)"

text \<open>
  Every unit the strip keeps lies below 256 (lemma \<open>kept_unit_small\<close>), so the result is
  again a string of 8-bit characters.
\<close>

definition normalizeString :: "string option \<Rightarrow> string" where
  "normalizeString str =
     (case str of
        None \<Rightarrow> []
      | Some s \<Rightarrow>
          if s = [] then []
          else map char_of
                 (trim_units (filter unit_kept (concat (map upperCaseUnits (map replace_sep s))))))"

text \<open>
  The normalizer as the specification words it: step (c) keeps upper-case letters and the
  space character, nothing else.
\<close>

definition normalize_spec :: "string option \<Rightarrow> string" where
  "normalize_spec str =
     (case str of
        None \<Rightarrow> []
      | Some s \<Rightarrow>
          map char_of
            (trim_units (filter (\<lambda>u. (65 \<le> u \<and> u \<le> 90) \<or> u = 32)
                           (concat (map upperCaseUnits (map replace_sep s))))))"

section \<open>Location map builder\<close>

text \<open>
  A meeting of the upstream \<open>/v1/meetings\<close> list, with the three fields the builder
  reads. The location map is a JavaScript \<open>Map\<close> from alias to country; the country is
  whatever \<open>country_name\<close> held, \<open>null\<close> included. \<open>meetingsCache\<close> is the
  process-wide object keyed by year; the builder is only ever called with numeric years.
\<close>

record meeting =
  country_name :: "string option"
  location :: "string option"
  meeting_name :: "string option"

type_synonym location_map = "string \<rightharpoonup> string option"

type_synonym meetings_cache = "nat \<rightharpoonup> location_map"

definition default_aliases :: "(string \<times> string) list" where
  "default_aliases =
     [(''ABU DHABI'', ''United Arab Emirates''), (''ABUDHABI'', ''United Arab Emirates''),
      (''YAS MARINA'', ''United Arab Emirates''), (''YASMARINA'', ''United Arab Emirates''),
      (''UAE'', ''United Arab Emirates''),
      (''SILVERSTONE'', ''Great Britain''), (''BRITISH'', ''Great Britain''),
      (''UK'', ''Great Britain''),
      (''SPA'', ''Belgium''), (''SPA FRANCORCHAMPS'', ''Belgium''), (''MONZA'', ''Italy''),
      (''IMOLA'', ''Italy''), (''MONACO'', ''Monaco''), (''BAKU'', ''Azerbaijan''),
      (''AZERBAIJAN'', ''Azerbaijan''),
      (''COTA'', ''United States''), (''AUSTIN'', ''United States''),
      (''MIAMI'', ''United States''), (''LAS VEGAS'', ''United States''),
      (''LASVEGAS'', ''United States''), (''VEGAS'', ''United States''),
      (''USA'', ''United States''), (''US'', ''United States''),
      (''MEXICO'', ''Mexico''), (''MEXICO CITY'', ''Mexico''), (''MEXICOCITY'', ''Mexico''),
      (''INTERLAGOS'', ''Brazil''), (''SAO PAULO'', ''Brazil''), (''SAOPAULO'', ''Brazil''),
      (''BRAZIL'', ''Brazil''),
      (''SUZUKA'', ''Japan''), (''JAPAN'', ''Japan''), (''JEDDAH'', ''Saudi Arabia''),
      (''SAUDI'', ''Saudi Arabia''), (''BAHRAIN'', ''Bahrain''), (''SAKHIR'', ''Bahrain''),
      (''MELBOURNE'', ''Australia''), (''AUSTRALIA'', ''Australia''),
      (''MONTREAL'', ''Canada''), (''CANADA'', ''Canada''), (''BARCELONA'', ''Spain''),
      (''SPAIN'', ''Spain''),
      (''ZANDVOORT'', ''Netherlands''), (''DUTCH'', ''Netherlands''),
      (''HUNGARORING'', ''Hungary''), (''HUNGARY'', ''Hungary''),
      (''RED BULL RING'', ''Austria''), (''REDBULLRING'', ''Austria''),
      (''AUSTRIA'', ''Austria''), (''SPIELBERG'', ''Austria''),
      (''SINGAPORE'', ''Singapore''), (''MARINA BAY'', ''Singapore''),
      (''MARINABAY'', ''Singapore''), (''QATAR'', ''Qatar''), (''LUSAIL'', ''Qatar''),
      (''CHINA'', ''China''), (''SHANGHAI'', ''China'')]"

text \<open>\<open>map.set(k, v)\<close>, and \<open>new Map(entries)\<close>, which sets the entries in order.\<close>

definition map_set :: "string \<Rightarrow> string option \<Rightarrow> location_map \<Rightarrow> location_map" where
  "map_set k v m = m(k \<mapsto> v)"

definition default_map :: location_map where
  "default_map = foldl (\<lambda>m (k, v). map_set k (Some v) m) Map.empty default_aliases"

text \<open>\<open>s.split(/\s+/)[0]\<close>: what precedes the first run of white space.\<close>

definition first_token :: "string \<Rightarrow> string" where
  "first_token s = takeWhile (\<lambda>c. \<not> is_space c) s"

text \<open>
  The body of \<open>response.data.forEach((m) => { ... })\<close>:
  \<^verbatim>\<open>const country = m.country_name;
  map.set(normalizeString(country), country);
  if (m.location) map.set(normalizeString(m.location), country);
  if (m.meeting_name) {
      map.set(normalizeString(m.meeting_name), country);
      if (m.meeting_name.split(/\s+/)[0])
          map.set(normalizeString(m.meeting_name.split(/\s+/)[0]), country);
  }\<close>
\<close>

definition add_meeting :: "location_map \<Rightarrow> meeting \<Rightarrow> location_map" where
  "add_meeting m0 mt =
     (let country = country_name mt;
          m1 = map_set (normalizeString country) country m0;
          m2 = (if truthy_str (location mt)
                then map_set (normalizeString (location mt)) country m1 else m1)
      in case meeting_name mt of
           None \<Rightarrow> m2
         | Some name \<Rightarrow>
             if name = [] then m2
             else (let m3 = map_set (normalizeString (Some name)) country m2
                   in if first_token name \<noteq> []
                      then map_set (normalizeString (Some (first_token name))) country m3
                      else m3))"

text \<open>
  \<^verbatim>\<open>const fetchAndBuildLocationMap = async (year, token = null) => {
    if (meetingsCache[year]) return meetingsCache[year];
    const map = new Map([ ... ]);
    try {
      const response = await axios.get(`${OPENF1_BASE}/v1/meetings`, config);
      if (response.data && response.data.length > 0) {
        response.data.forEach((m) => { ... });
        meetingsCache[year] = map;
      }
      return map;
    } catch (err) { return map; }
  };\<close>
  The function takes the cache and the outcome of the request it would make, and returns
  the map together with the cache it leaves behind.
\<close>

definition fetchAndBuildLocationMap ::
  "nat \<Rightarrow> meeting list fetch \<Rightarrow> meetings_cache \<Rightarrow> location_map \<times> meetings_cache" where
  "fetchAndBuildLocationMap year response meetingsCache =
     (case meetingsCache year of
        Some cached \<Rightarrow> (cached, meetingsCache)
      | None \<Rightarrow>
          (case response of
             Rejected err \<Rightarrow> (default_map, meetingsCache)
           | Resolved data \<Rightarrow>
               if data \<noteq> []
               then (let m = foldl add_meeting default_map data
                     in (m, meetingsCache(year \<mapsto> m)))
               else (default_map, meetingsCache)))"

text \<open>
  A run of the process: calls of the builder, each with its year and the outcome of the
  upstream request, threaded through the cache. The result lists the maps returned.
\<close>

fun build_calls :: "meetings_cache \<Rightarrow> (nat \<times> meeting list fetch) list \<Rightarrow> location_map list" where
  "build_calls cache [] = []"
| "build_calls cache ((year, response) # calls) =
     (case fetchAndBuildLocationMap year response cache of
        (m, cache') \<Rightarrow> m # build_calls cache' calls)"

text \<open>The invariant of the cache: every map it holds has the default aliases as keys.\<close>

definition cache_ok :: "meetings_cache \<Rightarrow> bool" where
  "cache_ok cache = (\<forall>y m. cache y = Some m \<longrightarrow> dom default_map \<subseteq> dom m)"

section \<open>Month filter and session selection\<close>

record session =
  session_key :: nat
  date_start :: "int option"

text \<open>
  What a property read on the \<open>monthMap\<close> literal yields: the number stored under an
  own key, \<open>undefined\<close>, or, for a name that every object literal inherits from
  \<open>Object.prototype\<close>, the inherited function or object.
\<close>

datatype js_value = Undefined | Number nat | Inherited

definition monthMap :: "(string \<times> nat) list" where
  "monthMap =
     [(''jan'', 0), (''january'', 0), (''01'', 0), (''1'', 0),
      (''feb'', 1), (''february'', 1), (''02'', 1), (''2'', 1),
      (''mar'', 2), (''march'', 2), (''03'', 2), (''3'', 2),
      (''apr'', 3), (''april'', 3), (''04'', 3), (''4'', 3),
      (''may'', 4), (''05'', 4), (''5'', 4),
      (''jun'', 5), (''june'', 5), (''06'', 5), (''6'', 5),
      (''jul'', 6), (''july'', 6), (''07'', 6), (''7'', 6),
      (''aug'', 7), (''august'', 7), (''08'', 7), (''8'', 7),
      (''sep'', 8), (''september'', 8), (''09'', 8), (''9'', 8),
      (''oct'', 9), (''october'', 9), (''10'', 9),
      (''nov'', 10), (''november'', 10), (''11'', 10),
      (''dec'', 11), (''december'', 11), (''12'', 11)]"

definition object_prototype_names :: "string list" where
  "object_prototype_names =
     [''constructor'', ''__proto__'', ''hasOwnProperty'', ''isPrototypeOf'',
      ''propertyIsEnumerable'', ''toLocaleString'', ''toString'', ''valueOf'',
      ''__defineGetter__'', ''__defineSetter__'', ''__lookupGetter__'', ''__lookupSetter__'']"

definition monthMap_get :: "string \<Rightarrow> js_value" where
  "monthMap_get key =
     (case map_of monthMap key of
        Some n \<Rightarrow> Number n
      | None \<Rightarrow> if key \<in> set object_prototype_names then Inherited else Undefined)"

text \<open>\<open>n === v\<close> for a number \<open>n\<close>.\<close>

definition strict_eq_num :: "nat \<Rightarrow> js_value \<Rightarrow> bool" where
  "strict_eq_num n v = (case v of Number k \<Rightarrow> n = k | _ \<Rightarrow> False)"

text \<open>
  \<^verbatim>\<open>const filterByMonth = (data, monthInput) => {
    if (!monthInput || !Array.isArray(data)) return data;
    const monthMap = { "jan": 0, ... };
    const targetMonth = monthMap[monthInput.toString().toLowerCase().trim()];
    if (targetMonth === undefined) return data;
    return data.filter(item => item.date_start
                       && new Date(item.date_start).getUTCMonth() === targetMonth);
  };\<close>
\<close>

definition filterByMonth :: "session list \<Rightarrow> string option \<Rightarrow> session list" where
  "filterByMonth data monthInput =
     (case monthInput of
        None \<Rightarrow> data
      | Some mi \<Rightarrow>
          if mi = [] then data
          else (let targetMonth = monthMap_get (js_trim (toLowerCase mi))
                in if targetMonth = Undefined then data
                   else filter (\<lambda>item. case date_start item of
                                          None \<Rightarrow> False
                                        | Some d \<Rightarrow> strict_eq_num (getUTCMonth d) targetMonth)
                               data))"

text \<open>The month inputs the table recognizes, as the lower-cased, trimmed key.\<close>

definition recognized_month :: "string \<Rightarrow> bool" where
  "recognized_month mi = (js_trim (toLowerCase mi) \<in> set (map fst monthMap))"

definition quote :: string where
  "quote = [CHR 0x27]"

text \<open>
  \<^verbatim>\<open>const getSessionKey = async (year, location, sessionType, token = null, month = null) => {
    let countryToQuery = await resolveCountryFromHistory(location, token) || location;
    try {
      const openF1Type = mapSessionType(sessionType);
      const response = await axios.get(`${OPENF1_BASE}/v1/sessions`, config);
      let sessions = response.data;
      if (sessions.length === 0) throw new Error(
        `Session not found for '${countryToQuery}' and '${openF1Type}' in year ${year}.`);
      if (month) {
          sessions = filterByMonth(sessions, month);
          if (sessions.length === 0) throw new Error(
            `No sessions found in ${month} for ${countryToQuery} in year ${year}.`);
      }
      sessions.sort((a, b) => new Date(a.date_start) - new Date(b.date_start));
      return sessions[sessions.length - 1].session_key;
    } catch (error) {
      throw new Error(`Failed to locate session: ${error.response
                        ? error.response.data.error : error.message}`);
    }
  };\<close>
  \<open>countryToQuery\<close> is the country the first line settles on and \<open>response\<close> the
  outcome of the query for \<open>year\<close>, \<open>countryToQuery\<close> and the mapped type; a rejected
  request carries the text the handler reports. \<open>Array.prototype.sort\<close> is stable.
\<close>

definition getSessionKey ::
  "string \<Rightarrow> string \<Rightarrow> string option \<Rightarrow> string option \<Rightarrow> session list fetch \<Rightarrow> error + nat" where
  "getSessionKey year countryToQuery sessionType month response =
     (let openF1Type = mapSessionType sessionType
      in case response of
           Rejected msg \<Rightarrow> Inl (Error (''Failed to locate session: '' @ msg))
         | Resolved sessions \<Rightarrow>
             if sessions = []
             then Inl (Error (''Failed to locate session: '' @ ''Session not found for ''
                         @ quote @ countryToQuery @ quote @ '' and '' @ quote @ openF1Type
                         @ quote @ '' in year '' @ year @ ''.''))
             else (case (if truthy_str month then month else None) of
                     None \<Rightarrow> Inr (session_key (last (sort_key (\<lambda>s. ms_of (date_start s)) sessions)))
                   | Some mo \<Rightarrow>
                       (let filtered = filterByMonth sessions (Some mo)
                        in if filtered = []
                           then Inl (Error (''Failed to locate session: ''
                                   @ ''No sessions found in '' @ mo @ '' for ''
                                   @ countryToQuery @ '' in year '' @ year @ ''.''))
                           else Inr (session_key
                                  (last (sort_key (\<lambda>s. ms_of (date_start s)) filtered))))))"

text \<open>The candidates that survive the optional month filter.\<close>

definition candidates :: "session list \<Rightarrow> string option \<Rightarrow> session list" where
  "candidates sessions month =
     (if truthy_str month then filterByMonth sessions month else sessions)"

section \<open>Driver resolver\<close>

record driver =
  driver_number :: "nat option"
  name_acronym :: "string option"
  last_name :: "string option"
  full_name :: "string option"
  position :: "nat option"

text \<open>
  The predicate of \<open>drivers.find\<close>:
  \<^verbatim>\<open>(d.name_acronym && d.name_acronym.toLowerCase() === needle) ||
  (d.driver_number && d.driver_number.toString() === needle) ||
  (d.last_name && d.last_name.toLowerCase().includes(needle)) ||
  (d.full_name && d.full_name.toLowerCase().includes(needle))\<close>
\<close>

definition driver_matches :: "string \<Rightarrow> driver \<Rightarrow> bool" where
  "driver_matches needle d =
     ((case name_acronym d of None \<Rightarrow> False | Some a \<Rightarrow> a \<noteq> [] \<and> toLowerCase a = needle) \<or>
      (case driver_number d of None \<Rightarrow> False | Some n \<Rightarrow> n \<noteq> 0 \<and> show_nat n = needle) \<or>
      (case last_name d of None \<Rightarrow> False
         | Some l \<Rightarrow> l \<noteq> [] \<and> js_includes (toLowerCase l) needle) \<or>
      (case full_name d of None \<Rightarrow> False
         | Some f \<Rightarrow> f \<noteq> [] \<and> js_includes (toLowerCase f) needle))"

text \<open>
  \<^verbatim>\<open>const resolveDriverNumber = async (sessionKey, driverInput, token) => {
    if (!driverInput) return null;
    const { data: drivers } = await axios.get(`${OPENF1_BASE}/v1/drivers?session_key=...`);
    const needle = driverInput.toString().toLowerCase().trim();
    const match = drivers.find(d => { ... });
    if (match) { return match.driver_number; }
    return null;
  }\<close>
  \<open>roster\<close> is the outcome of the roster request; \<open>None\<close> in the result is \<open>null\<close>.
\<close>

definition resolveDriverNumber :: "driver list fetch \<Rightarrow> string option \<Rightarrow> error + nat option" where
  "resolveDriverNumber roster driverInput =
     (case driverInput of
        None \<Rightarrow> Inr None
      | Some tok \<Rightarrow>
          if tok = [] then Inr None
          else (case roster of
                  Rejected msg \<Rightarrow> Inl (Error msg)
                | Resolved drivers \<Rightarrow>
                    (case find (driver_matches (js_trim (toLowerCase tok))) drivers of
                       Some m \<Rightarrow> Inr (driver_number m)
                     | None \<Rightarrow> Inr None)))"

text \<open>
  The resolver as the specification words it: the first roster entry whose acronym or
  car number equals the lower-cased, trimmed token, or whose surname or full name
  contains it, for every token.
\<close>

definition spec_matches :: "string \<Rightarrow> driver \<Rightarrow> bool" where
  "spec_matches needle d =
     ((case name_acronym d of None \<Rightarrow> False | Some a \<Rightarrow> toLowerCase a = needle) \<or>
      (case driver_number d of None \<Rightarrow> False | Some n \<Rightarrow> show_nat n = needle) \<or>
      (case last_name d of None \<Rightarrow> False | Some l \<Rightarrow> sublist needle (toLowerCase l)) \<or>
      (case full_name d of None \<Rightarrow> False | Some f \<Rightarrow> sublist needle (toLowerCase f)))"

definition spec_resolve :: "driver list \<Rightarrow> string \<Rightarrow> nat option" where
  "spec_resolve drivers tok =
     (case find (spec_matches (js_trim (toLowerCase tok))) drivers of
        Some m \<Rightarrow> driver_number m
      | None \<Rightarrow> None)"

section \<open>Pit stops and tyre stints\<close>

record pit =
  pit_driver_number :: nat
  pit_lap_number :: int
  pit_duration :: "rat option"
  tyre_fitted :: "string option"

record stint =
  stint_driver_number :: nat
  lap_start :: int
  lap_end :: int
  compound :: "string option"

text \<open>How a row names its driver: \<open>dMap[n] || n\<close>, the acronym or else the number.\<close>

datatype driver_label = Acronym string | CarNumber nat

record pit_row =
  row_driver :: driver_label
  row_lap :: int
  row_duration :: "rat option"
  tyres_fitted :: string

text \<open>\<open>drivers.forEach(d => dMap[d.driver_number] = d.name_acronym)\<close>\<close>

definition dMap_of :: "driver list \<Rightarrow> string option js_object" where
  "dMap_of drivers =
     foldl (\<lambda>obj d. case driver_number d of
                       None \<Rightarrow> obj
                     | Some n \<Rightarrow> obj_set n (name_acronym d) obj) [] drivers"

definition label_of :: "string option js_object \<Rightarrow> nat \<Rightarrow> driver_label" where
  "label_of dMap n =
     (case obj_get dMap n of
        Some (Some a) \<Rightarrow> if a \<noteq> [] then Acronym a else CarNumber n
      | _ \<Rightarrow> CarNumber n)"

text \<open>
  \<^verbatim>\<open>stints.find(s => s.driver_number === p.driver_number
                    && Math.abs(s.lap_start - p.lap_number) <= 1)\<close>
\<close>

definition stint_matches :: "pit \<Rightarrow> stint \<Rightarrow> bool" where
  "stint_matches p s =
     (stint_driver_number s = pit_driver_number p \<and> \<bar>lap_start s - pit_lap_number p\<bar> \<le> 1)"

text \<open>\<open>{ ...p, tyre_fitted: stint ? stint.compound : "Unknown" }\<close>\<close>

definition enhance_pit :: "stint list \<Rightarrow> pit \<Rightarrow> pit" where
  "enhance_pit stints p =
     (case find (stint_matches p) stints of
        Some s \<Rightarrow> p\<lparr>tyre_fitted := compound s\<rparr>
      | None \<Rightarrow> p\<lparr>tyre_fitted := Some ''Unknown''\<rparr>)"

definition format_pit :: "string option js_object \<Rightarrow> pit \<Rightarrow> pit_row" where
  "format_pit dMap p =
     \<lparr>row_driver = label_of dMap (pit_driver_number p),
      row_lap = pit_lap_number p,
      row_duration = pit_duration p,
      tyres_fitted = (case tyre_fitted p of
                        Some c \<Rightarrow> if c \<noteq> [] then c else ''Unknown''
                      | None \<Rightarrow> ''Unknown'')\<rparr>"

text \<open>
  \<^verbatim>\<open>pitstops_summary: async (sessionKey, body, token) => {
    const { data: pits } = await axios.get(`.../v1/pit?session_key=${sessionKey}`, ...);
    const { data: drivers } = await axios.get(`.../v1/drivers?session_key=${sessionKey}`, ...);
    const dMap = {}; drivers.forEach(d => dMap[d.driver_number] = d.name_acronym);
    let targetPits = pits;
    if (body.driver) {
        const driverNum = await resolveDriverNumber(sessionKey, body.driver, token);
        if (driverNum) targetPits = pits.filter(p => p.driver_number === driverNum);
    }
    let enhancedPits = targetPits;
    try {
        const { data: stints } = await axios.get(`.../v1/stints?session_key=${sessionKey}`, ...);
        enhancedPits = targetPits.map(p => { ... });
    } catch(e) {}
    return { pit_stops: enhancedPits.map(p => ({ ... })), count: enhancedPits.length };
  }\<close>
  The three requests are the arguments \<open>pits\<close>, \<open>drivers\<close> (the roster, asked for once by
  the handler and once more by the resolver) and \<open>stints\<close>. The result is the list
  \<open>pit_stops\<close>; \<open>count\<close> is its length.
\<close>

definition pitstops_summary ::
  "string option \<Rightarrow> pit list fetch \<Rightarrow> driver list fetch \<Rightarrow> stint list fetch
     \<Rightarrow> error + pit_row list" where
  "pitstops_summary body_driver pits drivers stints =
     (case pits of
        Rejected msg \<Rightarrow> Inl (Error msg)
      | Resolved ps \<Rightarrow>
          (case drivers of
             Rejected msg \<Rightarrow> Inl (Error msg)
           | Resolved ds \<Rightarrow>
               (case (if truthy_str body_driver then resolveDriverNumber drivers body_driver
                      else Inr None) of
                  Inl e \<Rightarrow> Inl e
                | Inr driverNum \<Rightarrow>
                    (let targetPits =
                           (case driverNum of
                              Some n \<Rightarrow> if n \<noteq> 0
                                        then filter (\<lambda>p. pit_driver_number p = n) ps else ps
                            | None \<Rightarrow> ps);
                         enhancedPits =
                           (case stints of
                              Rejected msg \<Rightarrow> targetPits
                            | Resolved ss \<Rightarrow> map (enhance_pit ss) targetPits)
                     in Inr (map (format_pit (dMap_of ds)) enhancedPits)))))"

text \<open>
  The join as the specification words it: the stop's lap lies in the stint's lap range,
  widened by one lap at each end.
\<close>

definition spec_stint_matches :: "pit \<Rightarrow> stint \<Rightarrow> bool" where
  "spec_stint_matches p s =
     (stint_driver_number s = pit_driver_number p
      \<and> lap_start s - 1 \<le> pit_lap_number p \<and> pit_lap_number p \<le> lap_end s + 1)"

section \<open>Position change between two laps\<close>

record lap =
  lap_driver_number :: nat
  lap_number :: int
  lap_date_start :: "int option"
  lap_duration :: "rat option"

text \<open>
  \<^verbatim>\<open>const getLeaderboard = (lapNum) => {
    const laps = allLaps.filter(l => l.lap_number === lapNum && l.date_start && l.lap_duration);
    const withFinish = laps.map(l => ({ driver_number: l.driver_number,
        finish_time: new Date(l.date_start).getTime() + (l.lap_duration * 1000) }));
    withFinish.sort((a, b) => a.finish_time - b.finish_time);
    const posMap = {};
    withFinish.forEach((entry, index) => { posMap[entry.driver_number] = index + 1; });
    return posMap;
  };\<close>
  \<open>withFinish\<close> is the sorted list of pairs of driver number and finish time.
\<close>

definition finish_time :: "lap \<Rightarrow> rat" where
  "finish_time l = of_int (ms_of (lap_date_start l)) + num_of (lap_duration l) * 1000"

definition withFinish :: "lap list \<Rightarrow> int \<Rightarrow> (nat \<times> rat) list" where
  "withFinish allLaps lapNum =
     sort_key snd
       (map (\<lambda>l. (lap_driver_number l, finish_time l))
          (filter (\<lambda>l. lap_number l = lapNum \<and> lap_date_start l \<noteq> None
                        \<and> lap_duration l \<noteq> None \<and> lap_duration l \<noteq> Some 0) allLaps))"

definition posMap_of :: "(nat \<times> rat) list \<Rightarrow> nat js_object" where
  "posMap_of entries =
     foldl (\<lambda>obj (index, entry). obj_set (fst entry) (index + 1) obj) [] (enumerate 0 entries)"

definition getLeaderboard :: "lap list \<Rightarrow> int \<Rightarrow> nat js_object" where
  "getLeaderboard allLaps lapNum = posMap_of (withFinish allLaps lapNum)"

record change =
  ch_driver :: driver_label
  ch_driver_number :: nat
  lap_start_pos :: nat
  lap_end_pos :: nat
  positions_gained :: int
  status :: string

text \<open>
  \<^verbatim>\<open>Object.keys(posCurrent).forEach(driverNum => {
    if (posPrev[driverNum] && posCurrent[driverNum]) {
        const gained = posPrev[driverNum] - posCurrent[driverNum];
        changes.push({ driver: driverMap[driverNum] || driverNum, driver_number: driverNum,
            lap_start_pos: posPrev[driverNum], lap_end_pos: posCurrent[driverNum],
            positions_gained: gained,
            status: gained > 0 ? "GAINED" : (gained < 0 ? "LOST" : "SAME") });
    }
  });\<close>
\<close>

definition change_of ::
  "string option js_object \<Rightarrow> nat js_object \<Rightarrow> nat js_object \<Rightarrow> nat \<Rightarrow> change option" where
  "change_of driverMap posPrev posCurrent driverNum =
     (case (obj_get posPrev driverNum, obj_get posCurrent driverNum) of
        (Some pp, Some pc) \<Rightarrow>
          if pp \<noteq> 0 \<and> pc \<noteq> 0
          then (let gained = int pp - int pc
                in Some \<lparr>ch_driver = label_of driverMap driverNum,
                         ch_driver_number = driverNum,
                         lap_start_pos = pp, lap_end_pos = pc,
                         positions_gained = gained,
                         status = (if gained > 0 then ''GAINED''
                                   else if gained < 0 then ''LOST'' else ''SAME'')\<rparr>)
          else None
      | _ \<Rightarrow> None)"

definition changes_of ::
  "string option js_object \<Rightarrow> nat js_object \<Rightarrow> nat js_object \<Rightarrow> change list" where
  "changes_of driverMap posPrev posCurrent =
     List.map_filter (change_of driverMap posPrev posCurrent) (obj_keys posCurrent)"

text \<open>
  The branch of \<open>position_change_summary\<close> taken when the request names a lap;
  \<open>currentLapNum\<close> is \<open>parseInt(body.lap_number)\<close>.
  \<^verbatim>\<open>if (currentLapNum <= 1) throw new Error("Cannot calculate changes for Lap 1.");
  const { data: allLaps } = await axios.get(`.../v1/laps?session_key=${sessionKey}`, ...);
  const posCurrent = getLeaderboard(currentLapNum);
  const posPrev = getLeaderboard(currentLapNum - 1);
  const { data: drivers } = await axios.get(`.../v1/drivers?session_key=${sessionKey}`, ...);
  const driverMap = {}; drivers.forEach(d => driverMap[d.driver_number] = d.name_acronym);
  let changes = []; Object.keys(posCurrent).forEach( ... );
  if (body.driver) {
      const targetNum = await resolveDriverNumber(sessionKey, body.driver, token);
      if (targetNum) changes = changes.filter(c => c.driver_number == targetNum);
  }
  changes.sort((a, b) => b.positions_gained - a.positions_gained);
  return { data_type: ..., total_drivers_tracked: changes.length, changes: changes };\<close>
  The result is the list \<open>changes\<close>.
\<close>

definition position_change_summary ::
  "int \<Rightarrow> string option \<Rightarrow> lap list fetch \<Rightarrow> driver list fetch \<Rightarrow> error + change list" where
  "position_change_summary currentLapNum body_driver laps drivers =
     (if currentLapNum \<le> 1 then Inl (Error ''Cannot calculate changes for Lap 1.'')
      else (case laps of
              Rejected msg \<Rightarrow> Inl (Error msg)
            | Resolved allLaps \<Rightarrow>
                (case drivers of
                   Rejected msg \<Rightarrow> Inl (Error msg)
                 | Resolved ds \<Rightarrow>
                     (let posCurrent = getLeaderboard allLaps currentLapNum;
                          posPrev = getLeaderboard allLaps (currentLapNum - 1);
                          changes = changes_of (dMap_of ds) posPrev posCurrent
                      in case (if truthy_str body_driver
                               then resolveDriverNumber drivers body_driver else Inr None) of
                           Inl e \<Rightarrow> Inl e
                         | Inr targetNum \<Rightarrow>
                             Inr (sort_key (\<lambda>c. - positions_gained c)
                                    (case targetNum of
                                       Some n \<Rightarrow>
                                         if n \<noteq> 0
                                         then filter (\<lambda>c. ch_driver_number c = n) changes
                                         else changes
                                     | None \<Rightarrow> changes))))))"

section \<open>Race-control summary\<close>

record message =
  msg_date :: "int option"
  msg_lap_number :: "int option"
  msg_category :: "string option"
  msg_flag :: "string option"
  msg_message :: "string option"
  msg_driver_number :: "nat option"

record rc_body =
  body_driver :: "string option"
  body_lap :: "int option"
  body_filter :: "string option"

text \<open>
  The pattern \<open>\blit\b\<close> tried at one position of the text: \<open>prev\<close> is the character
  before the position, if any. \<open>\b\<close> holds between two positions exactly one of which
  holds a word character.
\<close>

definition word_at :: "char option \<Rightarrow> bool" where
  "word_at c = (case c of None \<Rightarrow> False | Some x \<Rightarrow> is_word_char x)"

definition hd_opt :: "string \<Rightarrow> char option" where
  "hd_opt s = (case s of [] \<Rightarrow> None | c # _ \<Rightarrow> Some c)"

definition match_here :: "string \<Rightarrow> char option \<Rightarrow> string \<Rightarrow> bool" where
  "match_here lit prev s =
     (word_at prev \<noteq> word_at (hd_opt s) \<and> prefix lit s
      \<and> word_at (if lit = [] then prev else Some (last lit))
          \<noteq> word_at (hd_opt (drop (length lit) s)))"

text \<open>\<open>text.match(new RegExp(`\\blit\\b`))\<close>: the pattern matches at some position.\<close>

fun regex_search :: "string \<Rightarrow> char option \<Rightarrow> string \<Rightarrow> bool" where
  "regex_search lit prev [] = match_here lit prev []"
| "regex_search lit prev (c # cs) =
     (match_here lit prev (c # cs) \<or> regex_search lit (Some c) cs)"

text \<open>\<open>`${driverNum}`\<close>\<close>

definition num_string :: "nat option \<Rightarrow> string" where
  "num_string n = (case n of None \<Rightarrow> ''null'' | Some k \<Rightarrow> show_nat k)"

definition car_match :: "nat option \<Rightarrow> string \<Rightarrow> bool" where
  "car_match driverNum msgLower = regex_search (''car '' @ num_string driverNum) None msgLower"

definition msgLower_of :: "message \<Rightarrow> string" where
  "msgLower_of m = (case msg_message m of None \<Rightarrow> [] | Some t \<Rightarrow> toLowerCase t)"

text \<open>
  \<^verbatim>\<open>let isTargetDriverEvent = false;
  if (m.driver_number === driverNum) isTargetDriverEvent = true;
  if (msgLower.match(new RegExp(`\\bcar ${driverNum}\\b`))) isTargetDriverEvent = true;
  if (msgLower.includes(`(${dAcronym})`)) isTargetDriverEvent = true;
  if (msgLower.includes(dName)) isTargetDriverEvent = true;\<close>
\<close>

definition isTargetDriverEvent :: "nat option \<Rightarrow> string \<Rightarrow> string \<Rightarrow> message \<Rightarrow> bool" where
  "isTargetDriverEvent driverNum dAcronym dName m =
     (msg_driver_number m = driverNum
      \<or> car_match driverNum (msgLower_of m)
      \<or> js_includes (msgLower_of m) (''('' @ dAcronym @ '')'')
      \<or> js_includes (msgLower_of m) dName)"

definition globalKeywords :: "string list" where
  "globalKeywords =
     [''safety car'', ''virtual safety car'', ''red flag'', ''chequered flag'',
      ''drs enabled'', ''drs disabled'', ''green light'', ''track clear'']"

definition globalCats :: "string list" where
  "globalCats = [''safetycar'', ''virtualsafetycar'', ''redflag'', ''drs'']"

definition globalFlags :: "string list" where
  "globalFlags = [''green'', ''chequered'', ''red'', ''yellow'']"

text \<open>
  The three tests inside \<open>if (!m.driver_number) { ... }\<close>:
  \<^verbatim>\<open>if (globalKeywords.some(kw => msgLower.includes(kw))) return true;
  if (globalCats.includes(m.category?.toLowerCase())) return true;
  if (m.category?.toLowerCase() === 'flag'
      && ["green", "chequered", "red", "yellow"].includes(m.flag?.toLowerCase())) return true;\<close>
\<close>

definition isGlobalEvent :: "message \<Rightarrow> bool" where
  "isGlobalEvent m =
     (list_ex (\<lambda>kw. js_includes (msgLower_of m) kw) globalKeywords
      \<or> (case msg_category m of None \<Rightarrow> False | Some c \<Rightarrow> toLowerCase c \<in> set globalCats)
      \<or> (case msg_category m of
            None \<Rightarrow> False
          | Some c \<Rightarrow>
              toLowerCase c = ''flag''
              \<and> (case msg_flag m of None \<Rightarrow> False | Some f \<Rightarrow> toLowerCase f \<in> set globalFlags)))"

text \<open>The callback of \<open>filtered.filter(m => { ... })\<close> in strict mode.\<close>

definition keeps :: "nat option \<Rightarrow> string \<Rightarrow> string \<Rightarrow> message \<Rightarrow> bool" where
  "keeps driverNum dAcronym dName m =
     (if isTargetDriverEvent driverNum dAcronym dName m then True
      else if \<not> truthy_num (msg_driver_number m) then isGlobalEvent m
      else False)"

text \<open>
  \<^verbatim>\<open>if (driverInfo) {
    const dAcronym = driverInfo.name_acronym.toLowerCase();
    const dName = driverInfo.last_name.toLowerCase();
    filtered = filtered.filter(m => { ... });
  }\<close>
  Reading \<open>toLowerCase\<close> off a \<open>null\<close> acronym or surname throws.
\<close>

definition strict_driver_filter :: "driver option \<Rightarrow> message list \<Rightarrow> error + message list" where
  "strict_driver_filter driverInfo filtered =
     (case driverInfo of
        None \<Rightarrow> Inr filtered
      | Some info \<Rightarrow>
          (case name_acronym info of
             None \<Rightarrow> Inl TypeError
           | Some acr \<Rightarrow>
               (case last_name info of
                  None \<Rightarrow> Inl TypeError
                | Some sur \<Rightarrow>
                    Inr (filter (keeps (driver_number info) (toLowerCase acr) (toLowerCase sur))
                           filtered))))"

text \<open>
  \<^verbatim>\<open>if (body.driver) {
    const { data: drivers } = await axios.get(`.../v1/drivers?session_key=${sessionKey}`, ...);
    const needle = body.driver.toString().toLowerCase().trim();
    driverInfo = drivers.find(d => { ... });
    if (!driverInfo) throw new Error(`Driver '${body.driver}' not found in this session.`);
    driverNum = driverInfo.driver_number;
  }\<close>
\<close>

definition find_driverInfo :: "string option \<Rightarrow> driver list fetch \<Rightarrow> error + driver option" where
  "find_driverInfo bd drivers =
     (case bd of
        None \<Rightarrow> Inr None
      | Some tok \<Rightarrow>
          if tok = [] then Inr None
          else (case drivers of
                  Rejected msg \<Rightarrow> Inl (Error msg)
                | Resolved ds \<Rightarrow>
                    (case find (driver_matches (js_trim (toLowerCase tok))) ds of
                       None \<Rightarrow> Inl (Error (''Driver '' @ quote @ tok @ quote
                                            @ '' not found in this session.''))
                     | Some d \<Rightarrow> Inr (Some d))))"

text \<open>
  The lap window. \<open>targetLap\<close> is \<open>parseInt(lapParam)\<close>; the reference driver is the
  filtered driver, or else the roster's leader, or else its first entry; \<open>lapData\<close> is the
  outcome of the request for that driver's lap.
  \<^verbatim>\<open>let refDriver = driverNum;
  if (!refDriver) {
       const { data: drivers } = await axios.get( ... );
       const winner = drivers.find(d => d.position === 1) || drivers[0];
       refDriver = winner.driver_number;
  }
  const { data: lapData } = await axios.get( ... );
  if (lapData && lapData.length > 0) {
      const lap = lapData[0];
      const startMs = new Date(lap.date_start).getTime();
      const endMs = startMs + (lap.lap_duration * 1000);
      filtered = filtered.filter(m => {
          if (m.lap_number === targetLap) return true;
          const msgTime = new Date(m.date).getTime();
          return (msgTime >= startMs && msgTime <= endMs);
      });
  } else { filtered = []; }\<close>
\<close>

definition in_lap_window :: "int \<Rightarrow> lap \<Rightarrow> message \<Rightarrow> bool" where
  "in_lap_window targetLap l m =
     (msg_lap_number m = Some targetLap
      \<or> (ms_of (lap_date_start l) \<le> ms_of (msg_date m)
         \<and> of_int (ms_of (msg_date m))
             \<le> of_int (ms_of (lap_date_start l)) + num_of (lap_duration l) * 1000))"

definition lap_filter ::
  "int option \<Rightarrow> nat option \<Rightarrow> driver list fetch \<Rightarrow> lap list fetch \<Rightarrow> message list
     \<Rightarrow> error + message list" where
  "lap_filter lapParam driverNum drivers lapData filtered =
     (case lapParam of
        None \<Rightarrow> Inr filtered
      | Some targetLap \<Rightarrow>
          (case (if truthy_num driverNum then Inr ()
                 else (case drivers of
                         Rejected msg \<Rightarrow> Inl (Error msg)
                       | Resolved ds \<Rightarrow>
                           (case find (\<lambda>d. position d = Some 1) ds of
                              Some winner \<Rightarrow> Inr ()
                            | None \<Rightarrow> (case ds of [] \<Rightarrow> Inl TypeError | d # _ \<Rightarrow> Inr ())))) of
             Inl e \<Rightarrow> Inl e
           | Inr _ \<Rightarrow>
               (case lapData of
                  Rejected msg \<Rightarrow> Inl (Error msg)
                | Resolved [] \<Rightarrow> Inr []
                | Resolved (l # _) \<Rightarrow> Inr (filter (in_lap_window targetLap l) filtered))))"

text \<open>
  \<^verbatim>\<open>if (body.filter) {
    const filterRaw = body.filter.toLowerCase();
    const filterSpaced = filterRaw.replace("safetycar", "safety car")
                                  .replace("virtualsafetycar", "virtual safety car");
    filtered = filtered.filter(m => {
        const corpus = [m.category, m.flag, m.message].join(" ").toLowerCase();
        return corpus.includes(filterRaw) || corpus.includes(filterSpaced);
    });
  }\<close>
\<close>

definition str_or_empty :: "string option \<Rightarrow> string" where
  "str_or_empty s = (case s of None \<Rightarrow> [] | Some t \<Rightarrow> t)"

definition corpus_of :: "message \<Rightarrow> string" where
  "corpus_of m =
     toLowerCase (str_or_empty (msg_category m) @ '' '' @ str_or_empty (msg_flag m) @ '' ''
                  @ str_or_empty (msg_message m))"

definition keyword_filter :: "string option \<Rightarrow> message list \<Rightarrow> message list" where
  "keyword_filter bf filtered =
     (case bf of
        None \<Rightarrow> filtered
      | Some f \<Rightarrow>
          if f = [] then filtered
          else (let filterRaw = toLowerCase f;
                    filterSpaced =
                      replace_first ''virtualsafetycar'' ''virtual safety car''
                        (replace_first ''safetycar'' ''safety car'' filterRaw)
                in filter (\<lambda>m. js_includes (corpus_of m) filterRaw
                                \<or> js_includes (corpus_of m) filterSpaced) filtered))"

text \<open>
  A request that carries a driver filter and nothing else, and what it means for the
  filter to be active: the non-empty token finds the roster entry \<open>info\<close>, which
  carries an acronym and a surname.
\<close>

definition driver_only :: "string \<Rightarrow> rc_body" where
  "driver_only tok = \<lparr>body_driver = Some tok, body_lap = None, body_filter = None\<rparr>"

definition driver_filter_active :: "string \<Rightarrow> driver list \<Rightarrow> driver \<Rightarrow> string \<Rightarrow> string \<Rightarrow> bool" where
  "driver_filter_active tok ds info acr sur =
     (tok \<noteq> [] \<and> find (driver_matches (js_trim (toLowerCase tok))) ds = Some info
      \<and> name_acronym info = Some acr \<and> last_name info = Some sur)"

text \<open>
  The handler: driver lookup, the messages request (\<open>messages || []\<close>), the strict driver
  filter, the lap window, the keyword filter, and the sort of the formatted messages by
  time, \<open>formatted.sort((a, b) => new Date(a.time) - new Date(b.time))\<close>. The result is
  the list \<open>messages\<close> of the response; a formatted message carries the six fields of the
  message it comes from.
\<close>

definition race_control_summary ::
  "rc_body \<Rightarrow> driver list fetch \<Rightarrow> message list fetch \<Rightarrow> lap list fetch
     \<Rightarrow> error + message list" where
  "race_control_summary body drivers messages lapData =
     (case find_driverInfo (body_driver body) drivers of
        Inl e \<Rightarrow> Inl e
      | Inr driverInfo \<Rightarrow>
          (case messages of
             Rejected msg \<Rightarrow> Inl (Error msg)
           | Resolved ms \<Rightarrow>
               (case strict_driver_filter driverInfo ms of
                  Inl e \<Rightarrow> Inl e
                | Inr filtered1 \<Rightarrow>
                    (case lap_filter (body_lap body)
                            (case driverInfo of None \<Rightarrow> None | Some info \<Rightarrow> driver_number info)
                            drivers lapData filtered1 of
                       Inl e \<Rightarrow> Inl e
                     | Inr filtered2 \<Rightarrow>
                         Inr (sort_key (\<lambda>m. ms_of (msg_date m))
                                (keyword_filter (body_filter body) filtered2))))))"

section \<open>Facts about the string operations\<close>

text \<open>The equations that evaluate the string operations on literals.\<close>

lemmas js_string_eval =
  is_upper_def is_lower_def is_digit_def is_space_def is_word_char_def
  toUpperChar_def toLowerChar_def toUpperCase_def toLowerCase_def js_trim_def
  char_of_def bit_Suc_0_iff digit_char_def show_nat.simps truthy_str_def truthy_num_def

lemma set_js_trim: "set (js_trim s) \<subseteq> set s"
proof -
  have "set (js_trim s) \<subseteq> set (dropWhile is_space s)"
    unfolding js_trim_def using set_dropWhileD by fastforce
  also have "\<dots> \<subseteq> set s"
    using set_dropWhileD by fastforce
  finally show ?thesis .
qed

lemma js_trim_Nil: "js_trim [] = []"
  by (simp add: js_trim_def)

lemma js_trim_head: "js_trim s \<noteq> [] \<Longrightarrow> \<not> is_space (hd (js_trim s))"
proof -
  assume ne: "js_trim s \<noteq> []"
  define d where "d = dropWhile is_space s"
  define e where "e = dropWhile is_space (rev d)"
  have t: "js_trim s = rev e" by (simp add: js_trim_def d_def e_def)
  with ne have "e \<noteq> []" by simp
  then have "rev d \<noteq> []" by (auto simp: e_def)
  then have dne: "d \<noteq> []" by simp
  then have hd_d: "\<not> is_space (hd d)" unfolding d_def by (rule hd_dropWhile)
  obtain k where k: "rev d = k @ e"
    unfolding e_def by (metis takeWhile_dropWhile_id)
  then have "d = rev e @ rev k" by (metis rev_append rev_rev_ident)
  with \<open>e \<noteq> []\<close> have "hd d = hd (rev e)" by simp
  with hd_d t show ?thesis by simp
qed

lemma js_trim_last: "js_trim s \<noteq> [] \<Longrightarrow> \<not> is_space (last (js_trim s))"
proof -
  assume ne: "js_trim s \<noteq> []"
  define e where "e = dropWhile is_space (rev (dropWhile is_space s))"
  have t: "js_trim s = rev e" by (simp add: js_trim_def e_def)
  with ne have "e \<noteq> []" by simp
  then have "\<not> is_space (hd e)" unfolding e_def by (rule hd_dropWhile)
  with \<open>e \<noteq> []\<close> t show ?thesis by (simp add: last_rev)
qed

lemma js_trim_fixed:
  assumes "s \<noteq> [] \<Longrightarrow> \<not> is_space (hd s)" and "s \<noteq> [] \<Longrightarrow> \<not> is_space (last s)"
  shows "js_trim s = s"
proof (cases s)
  case Nil
  then show ?thesis by (simp add: js_trim_def)
next
  case (Cons a as)
  with assms have h: "\<not> is_space (hd s)" and l: "\<not> is_space (last s)" by auto
  from Cons h have d: "dropWhile is_space s = s" by simp
  from Cons obtain x xs where r: "rev s = x # xs" by (cases "rev s") auto
  from Cons have "hd (rev s) = last s" by (simp add: hd_rev)
  with r have "x = last s" by simp
  with l have "dropWhile is_space (x # xs) = x # xs" by simp
  with r have "rev (dropWhile is_space (rev s)) = s" by (metis rev_rev_ident)
  with d show ?thesis by (simp add: js_trim_def)
qed

lemma js_trim_idem: "js_trim (js_trim s) = js_trim s"
  by (rule js_trim_fixed) (auto dest: js_trim_head js_trim_last)

lemma js_includes_sublist: "js_includes s n \<longleftrightarrow> sublist n s"
  by (induction s) (auto simp: sublist_Cons_right)

section \<open>The location normalizer is canonical and idempotent\<close>

lemmas normalize_eval =
  normalizeString_def normalize_spec_def replace_sep_def upperCaseUnits_def unit_kept_def
  unit_space_def trim_units_def is_white_def char_of_def bit_Suc_0_iff

lemma of_char_small: "(of_char c :: nat) < 256"
proof -
  have "(of_char c :: nat) mod 256 = of_char c" by (rule of_char_mod_256)
  then show ?thesis by (metis mod_less_divisor zero_less_numeral)
qed

lemma kept_unit_small:
  assumes "u \<in> set (upperCaseUnits c)" and "unit_kept u"
  shows "u < 256"
proof -
  have n: "(of_char c :: nat) < 256" by (rule of_char_small)
  from assms(1) have "u = of_char c - 32 \<or> u = 83 \<or> u = 924 \<or> u = 376 \<or> u = of_char c"
    by (auto simp: upperCaseUnits_def split: if_splits)
  moreover have "\<not> unit_kept 924" "\<not> unit_kept 376"
    by (simp_all add: unit_kept_def unit_space_def)
  moreover from n have "(of_char c :: nat) - 32 < 256" by arith
  ultimately show ?thesis using assms(2) n by auto
qed

lemma kept_units_small:
  assumes "u \<in> set (filter unit_kept (concat (map upperCaseUnits cs)))"
  shows "u < 256"
proof -
  from assms obtain c where "u \<in> set (upperCaseUnits c)" and "unit_kept u" by auto
  then show ?thesis by (rule kept_unit_small)
qed

lemma set_trim_units: "set (trim_units us) \<subseteq> set us"
proof -
  have "set (trim_units us) \<subseteq> set (dropWhile unit_space us)"
    unfolding trim_units_def using set_dropWhileD by fastforce
  also have "\<dots> \<subseteq> set us"
    using set_dropWhileD by fastforce
  finally show ?thesis .
qed

lemma trim_units_head: "trim_units us \<noteq> [] \<Longrightarrow> \<not> unit_space (hd (trim_units us))"
proof -
  assume ne: "trim_units us \<noteq> []"
  define d where "d = dropWhile unit_space us"
  define e where "e = dropWhile unit_space (rev d)"
  have t: "trim_units us = rev e" by (simp add: trim_units_def d_def e_def)
  with ne have "e \<noteq> []" by simp
  then have "rev d \<noteq> []" by (auto simp: e_def)
  then have dne: "d \<noteq> []" by simp
  then have hd_d: "\<not> unit_space (hd d)" unfolding d_def by (rule hd_dropWhile)
  obtain k where k: "rev d = k @ e"
    unfolding e_def by (metis takeWhile_dropWhile_id)
  then have "d = rev e @ rev k" by (metis rev_append rev_rev_ident)
  with \<open>e \<noteq> []\<close> have "hd d = hd (rev e)" by simp
  with hd_d t show ?thesis by simp
qed

lemma trim_units_last: "trim_units us \<noteq> [] \<Longrightarrow> \<not> unit_space (last (trim_units us))"
proof -
  assume ne: "trim_units us \<noteq> []"
  define e where "e = dropWhile unit_space (rev (dropWhile unit_space us))"
  have t: "trim_units us = rev e" by (simp add: trim_units_def e_def)
  with ne have "e \<noteq> []" by simp
  then have "\<not> unit_space (hd e)" unfolding e_def by (rule hd_dropWhile)
  with \<open>e \<noteq> []\<close> t show ?thesis by (simp add: last_rev)
qed

lemma trim_units_fixed:
  assumes "us \<noteq> [] \<Longrightarrow> \<not> unit_space (hd us)" and "us \<noteq> [] \<Longrightarrow> \<not> unit_space (last us)"
  shows "trim_units us = us"
proof (cases us)
  case Nil
  then show ?thesis by (simp add: trim_units_def)
next
  case (Cons a as)
  with assms have h: "\<not> unit_space (hd us)" and l: "\<not> unit_space (last us)" by auto
  from Cons h have d: "dropWhile unit_space us = us" by simp
  from Cons obtain x xs where r: "rev us = x # xs" by (cases "rev us") auto
  from Cons have "hd (rev us) = last us" by (simp add: hd_rev)
  with r have "x = last us" by simp
  with l have "dropWhile unit_space (x # xs) = x # xs" by simp
  with r have "rev (dropWhile unit_space (rev us)) = us" by (metis rev_rev_ident)
  with d show ?thesis by (simp add: trim_units_def)
qed

text \<open>The units of a result, before they are turned back into characters.\<close>

lemma normalizeString_units:
  "\<exists>us. normalizeString str = map char_of us \<and> (\<forall>u\<in>set us. unit_kept u \<and> u < 256)
        \<and> (us \<noteq> [] \<longrightarrow> \<not> unit_space (hd us) \<and> \<not> unit_space (last us))"
proof (cases "\<exists>s. str = Some s \<and> s \<noteq> []")
  case False
  then have "normalizeString str = map char_of []"
    by (cases str) (auto simp: normalizeString_def)
  then show ?thesis by (intro exI[of _ "[]"]) simp
next
  case True
  then obtain s where s: "str = Some s" "s \<noteq> []" by blast
  let ?f = "filter unit_kept (concat (map upperCaseUnits (map replace_sep s)))"
  let ?us = "trim_units ?f"
  from s have r: "normalizeString str = map char_of ?us" by (simp add: normalizeString_def)
  have "\<forall>u\<in>set ?us. unit_kept u \<and> u < 256"
  proof
    fix u assume "u \<in> set ?us"
    then have m: "u \<in> set ?f" using set_trim_units by blast
    then have "u < 256" by (rule kept_units_small)
    moreover from m have "unit_kept u" by simp
    ultimately show "unit_kept u \<and> u < 256" by simp
  qed
  moreover have "?us \<noteq> [] \<longrightarrow> \<not> unit_space (hd ?us) \<and> \<not> unit_space (last ?us)"
    using trim_units_head trim_units_last by blast
  ultimately show ?thesis using r by blast
qed

lemma char_of_unit:
  assumes "u < 256"
  shows "(of_char (char_of u) :: nat) = u"
  using assms by simp

lemma normalizeString_chars: "c \<in> set (normalizeString str) \<Longrightarrow> is_upper c \<or> is_white c"
proof -
  assume c: "c \<in> set (normalizeString str)"
  obtain us where r: "normalizeString str = map char_of us"
    and k: "\<forall>u\<in>set us. unit_kept u \<and> u < 256"
    using normalizeString_units by blast
  from c r obtain u where u: "u \<in> set us" "c = char_of u" by auto
  with k have "unit_kept u" and "(of_char c :: nat) = u" by (simp_all add: char_of_unit)
  then show ?thesis by (auto simp: unit_kept_def is_upper_def is_white_def)
qed

lemma normalizeString_ends:
  assumes "normalizeString str \<noteq> []"
  shows "\<not> is_white (hd (normalizeString str)) \<and> \<not> is_white (last (normalizeString str))"
proof -
  obtain us where r: "normalizeString str = map char_of us"
    and k: "\<forall>u\<in>set us. unit_kept u \<and> u < 256"
    and e: "us \<noteq> [] \<longrightarrow> \<not> unit_space (hd us) \<and> \<not> unit_space (last us)"
    using normalizeString_units by blast
  from assms r have ne: "us \<noteq> []" by auto
  then have "hd us \<in> set us" and "last us \<in> set us" by simp_all
  with k have "(of_char (char_of (hd us)) :: nat) = hd us"
    and "(of_char (char_of (last us)) :: nat) = last us"
    by (simp_all add: char_of_unit)
  moreover from ne r have "hd (normalizeString str) = char_of (hd us)"
    and "last (normalizeString str) = char_of (last us)"
    by (simp_all add: hd_map last_map)
  ultimately show ?thesis using e ne by (simp add: is_white_def)
qed

lemma upperCaseUnits_canonical:
  assumes "is_upper c \<or> is_white c"
  shows "replace_sep c = c \<and> upperCaseUnits c = [of_char c] \<and> unit_kept (of_char c)"
proof -
  have n: "(of_char c :: nat) < 256" by (rule of_char_small)
  from assms have k: "unit_kept (of_char c)"
    by (auto simp: unit_kept_def is_upper_def is_white_def)
  from assms n have u: "upperCaseUnits c = [of_char c]"
    by (auto simp: upperCaseUnits_def is_upper_def is_white_def unit_space_def)
  have "c \<noteq> CHR ''_'' \<and> c \<noteq> CHR ''-''"
    using assms by (auto simp: is_upper_def is_white_def unit_space_def)
  then have "replace_sep c = c" by (simp add: replace_sep_def)
  with u k show ?thesis by simp
qed

lemma normalizeString_fixed:
  assumes "\<forall>c\<in>set s. is_upper c \<or> is_white c"
    and "s \<noteq> [] \<longrightarrow> \<not> is_white (hd s) \<and> \<not> is_white (last s)"
  shows "normalizeString (Some s) = s"
proof (cases "s = []")
  case True
  then show ?thesis by (simp add: normalizeString_def)
next
  case False
  from assms(1) have m: "map replace_sep s = s"
    using upperCaseUnits_canonical by (simp add: map_idI)
  have e: "map upperCaseUnits s = map (\<lambda>c. [of_char c]) s"
  proof (rule map_cong[OF refl])
    fix c assume "c \<in> set s"
    with assms(1) show "upperCaseUnits c = [of_char c]"
      using upperCaseUnits_canonical by blast
  qed
  have u: "concat (map upperCaseUnits s) = map of_char s"
    unfolding e by (rule concat_map_singleton)
  from assms(1) have f: "filter unit_kept (map of_char s) = map of_char s"
    using upperCaseUnits_canonical by (simp add: filter_map o_def)
  from False assms(2) have "\<not> unit_space (hd (map of_char s))"
    and "\<not> unit_space (last (map of_char s))"
    by (simp_all add: hd_map last_map is_white_def)
  then have t: "trim_units (map of_char s) = map of_char s"
    by (intro trim_units_fixed) simp_all
  have "map char_of (map (of_char :: char \<Rightarrow> nat) s) = s" by (simp add: map_idI)
  with False m u f t show ?thesis by (simp add: normalizeString_def)
qed

lemma normalizeString_idem:
  "normalizeString (Some (normalizeString str)) = normalizeString str"
  by (rule normalizeString_fixed) (auto simp: normalizeString_chars normalizeString_ends)

lemma space_unit_after_upper:
  assumes "u \<in> set (upperCaseUnits (replace_sep c))" and "unit_space u"
    and "is_white c \<longrightarrow> c = CHR '' ''"
  shows "u = 32"
proof (cases "c = CHR ''_'' \<or> c = CHR ''-''")
  case True
  then have "replace_sep c = CHR '' ''" by (simp add: replace_sep_def)
  with assms(1) show ?thesis by (simp add: upperCaseUnits_def)
next
  case False
  then have r: "replace_sep c = c" by (simp add: replace_sep_def)
  have n: "(of_char c :: nat) < 256" by (rule of_char_small)
  from assms(1) r
  have "u = of_char c - 32 \<and> ((97 \<le> (of_char c :: nat) \<and> (of_char c :: nat) \<le> 122)
                             \<or> (224 \<le> (of_char c :: nat) \<and> (of_char c :: nat) \<le> 254))
        \<or> u = 83 \<or> u = 924 \<or> u = 376 \<or> u = of_char c"
    by (auto simp: upperCaseUnits_def split: if_splits)
  with assms(2) have "u = of_char c"
    by (auto simp: unit_space_def)
  with assms(2) have "is_white c" by (simp add: is_white_def)
  with assms(3) have "c = CHR '' ''" by simp
  with \<open>u = of_char c\<close> show ?thesis by simp
qed

lemma normalizeString_spec_agree:
  assumes "\<forall>c\<in>set s. is_white c \<longrightarrow> c = CHR '' ''"
  shows "normalizeString (Some s) = normalize_spec (Some s)"
proof -
  let ?units = "concat (map upperCaseUnits (map replace_sep s))"
  have "filter unit_kept ?units = filter (\<lambda>u. (65 \<le> u \<and> u \<le> 90) \<or> u = 32) ?units"
  proof (rule filter_cong[OF refl])
    fix u assume "u \<in> set ?units"
    then obtain c where c: "c \<in> set s" "u \<in> set (upperCaseUnits (replace_sep c))" by auto
    with assms have "unit_space u \<Longrightarrow> u = 32"
      using space_unit_after_upper by blast
    moreover have "unit_space 32" by (simp add: unit_space_def)
    ultimately show "unit_kept u = ((65 \<le> u \<and> u \<le> 90) \<or> u = 32)"
      by (auto simp: unit_kept_def)
  qed
  then show ?thesis
    by (simp add: normalizeString_def normalize_spec_def trim_units_def)
qed

text \<open>
  C6, as the claim words it: every character that is not an upper-case letter or a space
  is stripped. The code's second pattern is \<open>[^A-Z\s]\<close>, which keeps every white-space
  character: a tab inside the input survives, where the specification's wording removes it.
\<close>

theorem normalizeString_tab_counterexample:
  "normalizeString (Some [CHR ''a'', CHR 0x09, CHR ''b'']) = [CHR ''A'', CHR 0x09, CHR ''B'']
   \<and> normalize_spec (Some [CHR ''a'', CHR 0x09, CHR ''b'']) = ''AB''"
  by (simp add: normalize_eval)

text \<open>
  C6, amended: the location normalizer is a total function that yields the empty string
  for an empty or absent input and otherwise replaces underscores and hyphens with spaces,
  upper-cases, strips every character that is not an upper-case letter A to Z or a
  white-space character, and trims. Its result holds only the letters A to Z and white
  space, has no white space at either end, agrees with the specification's wording on
  every input whose only white space is the space character, and the function is
  idempotent.
\<close>

theorem normalizeString_canonical_idempotent:
  "normalizeString None = [] \<and> normalizeString (Some []) = []
   \<and> (s \<noteq> [] \<longrightarrow>
        normalizeString (Some s)
        = map char_of
            (trim_units (filter (\<lambda>u. (65 \<le> u \<and> u \<le> 90) \<or> unit_space u)
                           (concat (map upperCaseUnits (map replace_sep s))))))
   \<and> (\<forall>c\<in>set (normalizeString str). is_upper c \<or> is_white c)
   \<and> (normalizeString str \<noteq> [] \<longrightarrow>
        \<not> is_white (hd (normalizeString str)) \<and> \<not> is_white (last (normalizeString str)))
   \<and> ((\<forall>c\<in>set s. is_white c \<longrightarrow> c = CHR '' '') \<longrightarrow>
        normalizeString (Some s) = normalize_spec (Some s))
   \<and> normalizeString (Some (normalizeString str)) = normalizeString str"
proof -
  have a: "normalizeString None = [] \<and> normalizeString (Some []) = []"
    by (simp add: normalizeString_def)
  have b: "s \<noteq> [] \<longrightarrow>
        normalizeString (Some s)
        = map char_of
            (trim_units (filter (\<lambda>u. (65 \<le> u \<and> u \<le> 90) \<or> unit_space u)
                           (concat (map upperCaseUnits (map replace_sep s)))))"
  proof -
    have "unit_kept = (\<lambda>u. (65 \<le> u \<and> u \<le> 90) \<or> unit_space u)"
      by (auto simp: unit_kept_def)
    then show ?thesis by (simp add: normalizeString_def)
  qed
  have c: "\<forall>c\<in>set (normalizeString str). is_upper c \<or> is_white c"
    using normalizeString_chars by blast
  have d: "normalizeString str \<noteq> [] \<longrightarrow>
        \<not> is_white (hd (normalizeString str)) \<and> \<not> is_white (last (normalizeString str))"
    using normalizeString_ends by blast
  have e: "(\<forall>c\<in>set s. is_white c \<longrightarrow> c = CHR '' '') \<longrightarrow>
        normalizeString (Some s) = normalize_spec (Some s)"
    using normalizeString_spec_agree by blast
  from a b c d e normalizeString_idem show ?thesis by blast
qed

theorem normalizeString_canonical_idempotent_witness:
  "''abu_dhabi-2024 '' \<noteq> []
   \<and> list_all (\<lambda>c. is_white c \<longrightarrow> c = CHR '' '') ''abu_dhabi-2024 ''
   \<and> normalizeString (Some ''abu_dhabi-2024 '') = ''ABU DHABI''
   \<and> normalize_spec (Some ''abu_dhabi-2024 '') = ''ABU DHABI''
   \<and> normalizeString (Some ''ABU DHABI'') = ''ABU DHABI''
   \<and> normalizeString (Some [CHR ''a'', CHR 0xA0, CHR ''b'']) = [CHR ''A'', CHR 0xA0, CHR ''B'']
   \<and> normalizeString (Some [CHR ''S'', CHR ''t'', CHR ''r'', CHR ''a'', CHR 0xDF, CHR ''e''])
     = ''STRASSE''
   \<and> normalizeString (Some ''STRASSE'') = ''STRASSE''"
proof -
  have v: "normalizeString (Some ''abu_dhabi-2024 '') = ''ABU DHABI''"
    by (simp add: normalize_eval)
  have h1: "''abu_dhabi-2024 '' \<noteq> []" by simp
  have h2: "\<forall>c\<in>set ''abu_dhabi-2024 ''. is_white c \<longrightarrow> c = CHR '' ''"
    by (simp add: is_white_def unit_space_def)
  from normalizeString_canonical_idempotent
         [of "''abu_dhabi-2024 ''" "Some ''abu_dhabi-2024 ''"]
  have "normalizeString (Some ''abu_dhabi-2024 '') = normalize_spec (Some ''abu_dhabi-2024 '')"
    and "normalizeString (Some (normalizeString (Some ''abu_dhabi-2024 '')))
         = normalizeString (Some ''abu_dhabi-2024 '')"
    using h2 by blast+
  with v have w: "normalize_spec (Some ''abu_dhabi-2024 '') = ''ABU DHABI''"
    "normalizeString (Some ''ABU DHABI'') = ''ABU DHABI''" by simp_all
  have n: "normalizeString (Some [CHR ''a'', CHR 0xA0, CHR ''b''])
           = [CHR ''A'', CHR 0xA0, CHR ''B'']"
    by (simp add: normalize_eval)
  have g: "normalizeString (Some [CHR ''S'', CHR ''t'', CHR ''r'', CHR ''a'', CHR 0xDF, CHR ''e''])
           = ''STRASSE''"
    by (simp add: normalize_eval)
  from normalizeString_canonical_idempotent
         [of "[]" "Some [CHR ''S'', CHR ''t'', CHR ''r'', CHR ''a'', CHR 0xDF, CHR ''e'']"]
  have "normalizeString (Some (normalizeString
          (Some [CHR ''S'', CHR ''t'', CHR ''r'', CHR ''a'', CHR 0xDF, CHR ''e''])))
        = normalizeString (Some [CHR ''S'', CHR ''t'', CHR ''r'', CHR ''a'', CHR 0xDF, CHR ''e''])"
    by blast
  with g have i: "normalizeString (Some ''STRASSE'') = ''STRASSE''" by simp
  from h1 h2 v w n g i show ?thesis by (simp add: list_all_iff)
qed

section \<open>Session types\<close>

lemma mapSessionType_label: "mapSessionType type \<in> set canonical_labels"
proof -
  have "\<And>k v. map_of session_type_map k = Some v \<Longrightarrow> v \<in> set canonical_labels"
    by (auto simp: session_type_map_def canonical_labels_def split: if_splits)
  moreover have "''Race'' \<in> set canonical_labels"
    by (simp add: canonical_labels_def)
  ultimately show ?thesis
    by (auto simp: mapSessionType_def split: option.splits)
qed

lemma mapSessionType_codes:
  "mapSessionType (Some ''R'') = ''Race'' \<and> mapSessionType (Some ''Q'') = ''Qualifying''
   \<and> mapSessionType (Some ''FP1'') = ''Practice 1'' \<and> mapSessionType (Some ''FP2'') = ''Practice 2''
   \<and> mapSessionType (Some ''FP3'') = ''Practice 3'' \<and> mapSessionType (Some ''S'') = ''Sprint''
   \<and> mapSessionType (Some ''Race'') = ''Race''
   \<and> mapSessionType (Some ''Qualifying'') = ''Qualifying''
   \<and> mapSessionType None = ''Race'' \<and> mapSessionType (Some []) = ''Race''"
  by (simp add: mapSessionType_def session_type_map_def js_string_eval)

lemma mapSessionType_default:
  "js_trim (toUpperCase t) \<notin> set (map fst session_type_map) \<Longrightarrow> mapSessionType (Some t) = ''Race''"
proof -
  assume "js_trim (toUpperCase t) \<notin> set (map fst session_type_map)"
  then have "map_of session_type_map (js_trim (toUpperCase t)) = None"
    by (simp add: map_of_eq_None_iff)
  then show ?thesis by (simp add: mapSessionType_def)
qed

text \<open>
  C7: the mapper always returns a session name of the upstream API, the six short codes
  and the names Race and Qualifying map to their label, and whatever the table does not
  hold maps to Race (the three lemmas above). The table holds two of the six canonical
  names only: the canonical names Sprint, Practice 1, Practice 2 and Practice 3 are
  answered with Race, where the claim has them map to their own label.
\<close>

theorem mapSessionType_canonical_names_missed:
  "mapSessionType (Some ''Sprint'') = ''Race''
   \<and> mapSessionType (Some ''Practice 1'') = ''Race''
   \<and> mapSessionType (Some ''Practice 2'') = ''Race''
   \<and> mapSessionType (Some ''Practice 3'') = ''Race''"
  by (simp add: mapSessionType_def session_type_map_def js_string_eval)

section \<open>Month filter\<close>

lemma filterByMonth_undefined:
  "monthMap_get (js_trim (toLowerCase mi)) = Undefined \<Longrightarrow> filterByMonth data (Some mi) = data"
  by (simp add: filterByMonth_def)

lemma filterByMonth_unrecognized:
  assumes "\<not> recognized_month mi"
    and "js_trim (toLowerCase mi) \<notin> set object_prototype_names"
  shows "filterByMonth data (Some mi) = data"
proof -
  from assms(1) have "map_of monthMap (js_trim (toLowerCase mi)) = None"
    by (simp add: recognized_month_def map_of_eq_None_iff)
  with assms(2) have "monthMap_get (js_trim (toLowerCase mi)) = Undefined"
    by (simp add: monthMap_get_def)
  then show ?thesis by (rule filterByMonth_undefined)
qed

lemma filterByMonth_absent: "filterByMonth data None = data \<and> filterByMonth data (Some []) = data"
  by (simp add: filterByMonth_def)

text \<open>
  C10: the month input \<open>constructor\<close> is no month name, abbreviation or number, yet the
  lookup \<open>monthMap["constructor"]\<close> finds the member every object literal inherits, which
  is not \<open>undefined\<close>; the guard \<open>targetMonth === undefined\<close> does not fire, no session's
  month equals the inherited function, and the filter returns the empty list. For every
  other unrecognized input the list comes back unchanged (\<open>filterByMonth_unrecognized\<close>).
\<close>

theorem filterByMonth_constructor_empties:
  "\<not> recognized_month ''constructor''
   \<and> filterByMonth [\<lparr>session_key = 9158, date_start = Some 1709391600000\<rparr>] (Some ''constructor'')
     = []"
  by (simp add: recognized_month_def filterByMonth_def monthMap_get_def monthMap_def
        object_prototype_names_def strict_eq_num_def js_string_eval)

section \<open>The location map keeps the default aliases\<close>

lemma map_set_keeps: "m k \<noteq> None \<Longrightarrow> map_set k' v m k \<noteq> None"
  by (simp add: map_set_def)

lemma map_set_dom: "dom (map_set k v m) = insert k (dom m)"
  by (simp add: map_set_def)

lemma add_meeting_grows: "dom m \<subseteq> dom (add_meeting m mt)"
  by (auto simp: add_meeting_def Let_def map_set_def split: option.splits)

lemma foldl_add_meeting_grows: "dom m \<subseteq> dom (foldl add_meeting m ms)"
proof (induction ms arbitrary: m)
  case Nil
  then show ?case by simp
next
  case (Cons mt ms)
  have "dom m \<subseteq> dom (add_meeting m mt)" by (rule add_meeting_grows)
  also have "\<dots> \<subseteq> dom (foldl add_meeting (add_meeting m mt) ms)" by (rule Cons.IH)
  finally show ?case by simp
qed

lemma dom_foldl_entries:
  "dom (foldl (\<lambda>m (k, v). map_set k (Some v) m) m0 es) = dom m0 \<union> fst ` set es"
proof (induction es arbitrary: m0)
  case Nil
  then show ?case by simp
next
  case (Cons e es)
  obtain k v where e: "e = (k, v)" by (cases e)
  have "dom (foldl (\<lambda>m (k, v). map_set k (Some v) m) (map_set k (Some v) m0) es)
        = dom (map_set k (Some v) m0) \<union> fst ` set es"
    by (rule Cons.IH)
  with e show ?case by (simp add: map_set_dom)
qed

lemma dom_default_map: "dom default_map = set (map fst default_aliases)"
  by (simp add: default_map_def dom_foldl_entries)

lemma fetchAndBuildLocationMap_ok:
  assumes "cache_ok cache" and "fetchAndBuildLocationMap year response cache = (m, cache')"
  shows "dom default_map \<subseteq> dom m \<and> cache_ok cache'"
proof (cases "cache year")
  case (Some cached)
  with assms show ?thesis
    by (auto simp: fetchAndBuildLocationMap_def cache_ok_def)
next
  case None
  show ?thesis
  proof (cases response)
    case (Rejected err)
    with None assms show ?thesis by (auto simp: fetchAndBuildLocationMap_def)
  next
    case (Resolved data)
    show ?thesis
    proof (cases "data = []")
      case True
      with None Resolved assms show ?thesis by (auto simp: fetchAndBuildLocationMap_def)
    next
      case False
      with None Resolved assms
      have m: "m = foldl add_meeting default_map data" and c: "cache' = cache(year \<mapsto> m)"
        by (auto simp: fetchAndBuildLocationMap_def Let_def)
      from m have "dom default_map \<subseteq> dom m" by (simp add: foldl_add_meeting_grows)
      with c assms(1) show ?thesis by (auto simp: cache_ok_def)
    qed
  qed
qed

lemma build_calls_ok:
  "cache_ok cache \<Longrightarrow> m \<in> set (build_calls cache calls) \<Longrightarrow> dom default_map \<subseteq> dom m"
proof (induction calls arbitrary: cache)
  case Nil
  then show ?case by simp
next
  case (Cons call calls)
  obtain year response where call: "call = (year, response)" by (cases call)
  obtain m0 cache' where f: "fetchAndBuildLocationMap year response cache = (m0, cache')"
    by (cases "fetchAndBuildLocationMap year response cache")
  from Cons.prems(1) f have ok: "dom default_map \<subseteq> dom m0" "cache_ok cache'"
    using fetchAndBuildLocationMap_ok by blast+
  from Cons.prems(2) call f have "m = m0 \<or> m \<in> set (build_calls cache' calls)" by simp
  with ok Cons.IH show ?case by blast
qed

text \<open>
  C9: for every year and every sequence of upstream meeting responses, failures included,
  every map the location map builder returns contains every alias key of the static
  default table: starting from the empty cache of a fresh process, whatever the calls and
  their outcomes, no call returns a map that lacks a default alias, and one call's
  enrichment of a map only adds keys to it.
\<close>

theorem location_map_superset:
  "(\<forall>m\<in>set (build_calls Map.empty calls). \<forall>k\<in>set (map fst default_aliases). m k \<noteq> None)
   \<and> (\<forall>k. m0 k \<noteq> None \<longrightarrow> add_meeting m0 mt k \<noteq> None)"
proof -
  have "cache_ok Map.empty" by (simp add: cache_ok_def)
  then have "\<forall>m\<in>set (build_calls Map.empty calls). dom default_map \<subseteq> dom m"
    using build_calls_ok by blast
  then have a: "\<forall>m\<in>set (build_calls Map.empty calls).
                  \<forall>k\<in>set (map fst default_aliases). m k \<noteq> None"
    unfolding dom_default_map by blast
  have b: "\<forall>k. m0 k \<noteq> None \<longrightarrow> add_meeting m0 mt k \<noteq> None"
    using add_meeting_grows[of m0 mt] by blast
  from a b show ?thesis by blast
qed

theorem location_map_superset_witness:
  "length (build_calls Map.empty
      [(2024, Rejected ''timeout''),
       (2024, Resolved [\<lparr>country_name = Some ''Monaco'', location = Some ''Monte-Carlo'',
                         meeting_name = Some ''Monaco Grand Prix''\<rparr>]),
       (2024, Resolved [])]) = 3
   \<and> (build_calls Map.empty
      [(2024, Rejected ''timeout''),
       (2024, Resolved [\<lparr>country_name = Some ''Monaco'', location = Some ''Monte-Carlo'',
                         meeting_name = Some ''Monaco Grand Prix''\<rparr>]),
       (2024, Resolved [])] ! 2) ''SILVERSTONE'' \<noteq> None
   \<and> ''SILVERSTONE'' \<in> set (map fst default_aliases)"
proof -
  define calls where "calls =
      [(2024::nat, Rejected ''timeout''),
       (2024, Resolved [\<lparr>country_name = Some ''Monaco'', location = Some ''Monte-Carlo'',
                         meeting_name = Some ''Monaco Grand Prix''\<rparr>]),
       (2024, Resolved [])]"
  have len: "length (build_calls Map.empty calls) = 3"
    by (simp add: calls_def fetchAndBuildLocationMap_def Let_def split: prod.splits)
  then have mem: "build_calls Map.empty calls ! 2 \<in> set (build_calls Map.empty calls)"
    by simp
  have key: "''SILVERSTONE'' \<in> set (map fst default_aliases)"
    by (simp add: default_aliases_def)
  from location_map_superset[of calls] mem key
  have "(build_calls Map.empty calls ! 2) ''SILVERSTONE'' \<noteq> None" by blast
  with len key show ?thesis by (simp add: calls_def)
qed

section \<open>Session selection\<close>

lemma sorted_le_last: "sorted zs \<Longrightarrow> z \<in> set zs \<Longrightarrow> z \<le> last zs"
  by (induction zs) auto

lemma last_sort_key_max:
  assumes "xs \<noteq> []"
  shows "last (sort_key f xs) \<in> set xs \<and> (\<forall>x\<in>set xs. f x \<le> f (last (sort_key f xs)))"
proof -
  let ?ys = "sort_key f xs"
  from assms have ne: "?ys \<noteq> []" by (metis length_sort length_0_conv)
  then have "last ?ys \<in> set ?ys" by (rule last_in_set)
  then have mem: "last ?ys \<in> set xs" by (simp only: set_sort)
  have s: "sorted (map f ?ys)" by simp
  from ne have l: "last (map f ?ys) = f (last ?ys)" by (simp add: last_map)
  have "f x \<le> f (last ?ys)" if "x \<in> set xs" for x
  proof -
    from that have "f x \<in> set (map f ?ys)" by simp
    with s have "f x \<le> last (map f ?ys)" by (rule sorted_le_last)
    with l show ?thesis by simp
  qed
  with mem show ?thesis by blast
qed

lemma filterByMonth_Nil: "filterByMonth [] month = []"
  by (simp add: filterByMonth_def Let_def split: option.splits)

lemma candidates_Nil: "candidates [] month = []"
  by (simp add: candidates_def filterByMonth_Nil)

lemma getSessionKey_candidates:
  assumes "sessions \<noteq> []" and "candidates sessions month \<noteq> []"
  shows "getSessionKey year country type month (Resolved sessions)
         = Inr (session_key (last (sort_key (\<lambda>s. ms_of (date_start s))
                                     (candidates sessions month))))"
proof (cases "truthy_str month")
  case True
  then obtain mo where mo: "month = Some mo" "mo \<noteq> []"
    by (auto simp: truthy_str_def split: option.splits)
  with assms True show ?thesis
    by (simp add: getSessionKey_def candidates_def Let_def)
next
  case False
  with assms show ?thesis
    by (simp add: getSessionKey_def candidates_def Let_def)
qed

lemma getSessionKey_none_found:
  "getSessionKey year country type month (Resolved [])
   = Inl (Error (''Failed to locate session: '' @ ''Session not found for ''
                 @ quote @ country @ quote @ '' and '' @ quote @ mapSessionType type
                 @ quote @ '' in year '' @ year @ ''.''))"
  by (simp add: getSessionKey_def Let_def)

lemma getSessionKey_month_empty:
  assumes "sessions \<noteq> []" and "candidates sessions month = []"
  shows "\<exists>mo. month = Some mo \<and>
           getSessionKey year country type month (Resolved sessions)
           = Inl (Error (''Failed to locate session: '' @ ''No sessions found in '' @ mo
                         @ '' for '' @ country @ '' in year '' @ year @ ''.''))"
proof (cases "truthy_str month")
  case True
  then obtain mo where mo: "month = Some mo" "mo \<noteq> []"
    by (auto simp: truthy_str_def split: option.splits)
  with assms True show ?thesis
    by (simp add: getSessionKey_def candidates_def Let_def)
next
  case False
  with assms show ?thesis by (simp add: candidates_def)
qed

lemma sublist_mid: "sublist x (a @ b @ x @ c)"
  by (metis append.assoc sublist_appendI)

text \<open>
  C4, as the claim words it: whenever a filtering stage empties the candidate list, the
  error identifies the country, the type and the year. The error raised when the month
  filter empties the list names the month, the country and the year; the session type
  does not occur in it.
\<close>

theorem getSessionKey_month_error_counterexample:
  "getSessionKey ''2024'' ''Italy'' (Some ''Q'') (Some ''5'')
     (Resolved [\<lparr>session_key = 9158, date_start = Some 1709391600000\<rparr>])
   = Inl (Error ''Failed to locate session: No sessions found in 5 for Italy in year 2024.'')
   \<and> mapSessionType (Some ''Q'') = ''Qualifying''
   \<and> \<not> sublist ''Qualifying''
         ''Failed to locate session: No sessions found in 5 for Italy in year 2024.''
   \<and> \<not> sublist ''Q''
         ''Failed to locate session: No sessions found in 5 for Italy in year 2024.''"
proof -
  have m: "getUTCMonth 1709391600000 = 2" by code_simp
  show ?thesis
    by (simp add: m getSessionKey_def filterByMonth_def monthMap_get_def monthMap_def
          strict_eq_num_def mapSessionType_def session_type_map_def quote_def
          sublist_Cons_right js_string_eval)
qed

text \<open>
  C4, amended: for every non-empty candidate list that survives the query and the optional
  month filter, the session resolver returns the session key of a candidate with the
  latest start timestamp (a \<open>null\<close> start counts as the epoch, as \<open>new Date(null)\<close>
  does). If the query returns no session it fails with an error that names the country,
  the mapped session type and the year; if the month filter empties the list it fails
  with an error that names the month, the country and the year.
\<close>

theorem getSessionKey_latest_or_error:
  "(candidates sessions month \<noteq> [] \<longrightarrow>
      (\<exists>s\<in>set (candidates sessions month).
         getSessionKey year country type month (Resolved sessions) = Inr (session_key s)
         \<and> (\<forall>s'\<in>set (candidates sessions month).
              ms_of (date_start s') \<le> ms_of (date_start s))))
   \<and> (sessions = [] \<longrightarrow>
      (\<exists>msg. getSessionKey year country type month (Resolved sessions) = Inl (Error msg)
         \<and> sublist country msg \<and> sublist (mapSessionType type) msg \<and> sublist year msg))
   \<and> (sessions \<noteq> [] \<and> candidates sessions month = [] \<longrightarrow>
      (\<exists>msg mo. month = Some mo
         \<and> getSessionKey year country type month (Resolved sessions) = Inl (Error msg)
         \<and> sublist mo msg \<and> sublist country msg \<and> sublist year msg))"
proof (intro conjI impI)
  assume c: "candidates sessions month \<noteq> []"
  then have ne: "sessions \<noteq> []" using candidates_Nil by blast
  let ?f = "\<lambda>s. ms_of (date_start s)"
  let ?s = "last (sort_key ?f (candidates sessions month))"
  from c have "?s \<in> set (candidates sessions month)
      \<and> (\<forall>x\<in>set (candidates sessions month). ?f x \<le> ?f ?s)"
    by (rule last_sort_key_max)
  moreover from ne c
  have "getSessionKey year country type month (Resolved sessions) = Inr (session_key ?s)"
    by (rule getSessionKey_candidates)
  ultimately show "\<exists>s\<in>set (candidates sessions month).
         getSessionKey year country type month (Resolved sessions) = Inr (session_key s)
         \<and> (\<forall>s'\<in>set (candidates sessions month).
              ms_of (date_start s') \<le> ms_of (date_start s))"
    by blast
next
  assume e: "sessions = []"
  let ?pre = "''Failed to locate session: '' @ ''Session not found for '' @ quote"
  let ?msg = "''Failed to locate session: '' @ ''Session not found for ''
                 @ quote @ country @ quote @ '' and '' @ quote @ mapSessionType type
                 @ quote @ '' in year '' @ year @ ''.''"
  have r: "getSessionKey year country type month (Resolved sessions) = Inl (Error ?msg)"
    unfolding e by (rule getSessionKey_none_found)
  have 1: "sublist country ?msg"
    using sublist_appendI[of country ?pre] by simp
  have 2: "sublist (mapSessionType type) ?msg"
    using sublist_appendI[of "mapSessionType type"
            "?pre @ country @ quote @ '' and '' @ quote"] by simp
  have 3: "sublist year ?msg"
    using sublist_appendI[of year
            "?pre @ country @ quote @ '' and '' @ quote @ mapSessionType type
             @ quote @ '' in year ''" "''.''"] by simp
  from r 1 2 3
  show "\<exists>msg. getSessionKey year country type month (Resolved sessions) = Inl (Error msg)
         \<and> sublist country msg \<and> sublist (mapSessionType type) msg \<and> sublist year msg"
    by blast
next
  assume a: "sessions \<noteq> [] \<and> candidates sessions month = []"
  then obtain mo where mo: "month = Some mo"
    and r: "getSessionKey year country type month (Resolved sessions)
           = Inl (Error (''Failed to locate session: '' @ ''No sessions found in '' @ mo
                         @ '' for '' @ country @ '' in year '' @ year @ ''.''))"
    using getSessionKey_month_empty by blast
  let ?msg = "''Failed to locate session: '' @ ''No sessions found in '' @ mo
                         @ '' for '' @ country @ '' in year '' @ year @ ''.''"
  have 1: "sublist mo ?msg" by (rule sublist_mid)
  have 2: "sublist country ?msg"
    using sublist_appendI[of country
            "''Failed to locate session: '' @ ''No sessions found in '' @ mo @ '' for ''"]
    by simp
  have 3: "sublist year ?msg"
    using sublist_appendI[of year
            "''Failed to locate session: '' @ ''No sessions found in '' @ mo @ '' for ''
             @ country @ '' in year ''" "''.''"]
    by simp
  from mo r 1 2 3
  show "\<exists>msg mo. month = Some mo
         \<and> getSessionKey year country type month (Resolved sessions) = Inl (Error msg)
         \<and> sublist mo msg \<and> sublist country msg \<and> sublist year msg"
    by blast
qed

theorem getSessionKey_latest_or_error_witness:
  "candidates [\<lparr>session_key = 9158, date_start = Some 1709391600000\<rparr>,
               \<lparr>session_key = 9165, date_start = Some 1709996400000\<rparr>,
               \<lparr>session_key = 9590, date_start = Some 1725800400000\<rparr>] (Some ''March'')
   = [\<lparr>session_key = 9158, date_start = Some 1709391600000\<rparr>,
      \<lparr>session_key = 9165, date_start = Some 1709996400000\<rparr>]
   \<and> getSessionKey ''2024'' ''Italy'' (Some ''R'') (Some ''March'')
       (Resolved [\<lparr>session_key = 9158, date_start = Some 1709391600000\<rparr>,
                  \<lparr>session_key = 9165, date_start = Some 1709996400000\<rparr>,
                  \<lparr>session_key = 9590, date_start = Some 1725800400000\<rparr>]) = Inr 9165
   \<and> (\<exists>s. s \<in> set (candidates
                        [\<lparr>session_key = 9158, date_start = Some 1709391600000\<rparr>,
                         \<lparr>session_key = 9165, date_start = Some 1709996400000\<rparr>,
                         \<lparr>session_key = 9590, date_start = Some 1725800400000\<rparr>]
                        (Some ''March''))
         \<and> session_key s = 9165 \<and> ms_of (date_start s) = 1709996400000)
   \<and> (\<exists>msg. getSessionKey ''2024'' ''Italy'' (Some ''R'') None (Resolved []) = Inl (Error msg)
         \<and> sublist ''Italy'' msg \<and> sublist ''Race'' msg \<and> sublist ''2024'' msg)
   \<and> (\<exists>msg. getSessionKey ''2024'' ''Italy'' (Some ''R'') (Some ''May'')
              (Resolved [\<lparr>session_key = 9158, date_start = Some 1709391600000\<rparr>])
             = Inl (Error msg)
         \<and> sublist ''May'' msg \<and> sublist ''Italy'' msg \<and> sublist ''2024'' msg)"
proof -
  let ?ss = "[\<lparr>session_key = 9158, date_start = Some 1709391600000\<rparr>,
              \<lparr>session_key = 9165, date_start = Some 1709996400000\<rparr>,
              \<lparr>session_key = 9590, date_start = Some 1725800400000\<rparr>]"
  have m: "getUTCMonth 1709391600000 = 2" "getUTCMonth 1709996400000 = 2"
    "getUTCMonth 1725800400000 = 8"
    by code_simp+
  have c: "candidates ?ss (Some ''March'')
           = [\<lparr>session_key = 9158, date_start = Some 1709391600000\<rparr>,
              \<lparr>session_key = 9165, date_start = Some 1709996400000\<rparr>]"
    by (simp add: m candidates_def filterByMonth_def monthMap_get_def monthMap_def
          strict_eq_num_def js_string_eval)
  have k: "getSessionKey ''2024'' ''Italy'' (Some ''R'') (Some ''March'') (Resolved ?ss)
           = Inr 9165"
    by (simp add: m getSessionKey_def filterByMonth_def monthMap_get_def monthMap_def
          strict_eq_num_def ms_of_def js_string_eval)
  have "candidates ?ss (Some ''March'') \<noteq> []" by (simp add: c)
  with getSessionKey_latest_or_error
         [of ?ss "Some ''March''" "''2024''" "''Italy''" "Some ''R''", THEN conjunct1]
  obtain s where s: "s \<in> set (candidates ?ss (Some ''March''))"
    and ks: "getSessionKey ''2024'' ''Italy'' (Some ''R'') (Some ''March'') (Resolved ?ss)
             = Inr (session_key s)"
    and mx: "\<forall>s'\<in>set (candidates ?ss (Some ''March'')).
               ms_of (date_start s') \<le> ms_of (date_start s)"
    by blast
  from ks k have "session_key s = 9165" by simp
  moreover from this s have "ms_of (date_start s) = 1709996400000"
    by (auto simp: c ms_of_def)
  ultimately have e0: "\<exists>s. s \<in> set (candidates ?ss (Some ''March''))
         \<and> session_key s = 9165 \<and> ms_of (date_start s) = 1709996400000"
    using s by blast
  have t: "mapSessionType (Some ''R'') = ''Race''"
    by (simp add: mapSessionType_def session_type_map_def js_string_eval)
  from getSessionKey_latest_or_error
         [of "[]" None "''2024''" "''Italy''" "Some ''R''"] t
  have e1: "\<exists>msg. getSessionKey ''2024'' ''Italy'' (Some ''R'') None (Resolved [])
                   = Inl (Error msg)
         \<and> sublist ''Italy'' msg \<and> sublist ''Race'' msg \<and> sublist ''2024'' msg"
    by simp
  have c2: "candidates [\<lparr>session_key = 9158, date_start = Some 1709391600000\<rparr>] (Some ''May'')
            = []"
    by (simp add: m candidates_def filterByMonth_def monthMap_get_def monthMap_def
          strict_eq_num_def js_string_eval)
  from getSessionKey_latest_or_error
         [of "[\<lparr>session_key = 9158, date_start = Some 1709391600000\<rparr>]" "Some ''May''"
             "''2024''" "''Italy''" "Some ''R''"] c2
  have e2: "\<exists>msg. getSessionKey ''2024'' ''Italy'' (Some ''R'') (Some ''May'')
              (Resolved [\<lparr>session_key = 9158, date_start = Some 1709391600000\<rparr>])
             = Inl (Error msg)
         \<and> sublist ''May'' msg \<and> sublist ''Italy'' msg \<and> sublist ''2024'' msg"
    by auto
  from c k e0 e1 e2 show ?thesis by (intro conjI)
qed

section \<open>Driver resolution\<close>

lemma find_first: "\<forall>x\<in>set pre. \<not> P x \<Longrightarrow> P d \<Longrightarrow> find P (pre @ d # post) = Some d"
  by (induction pre) auto

lemma find_none: "\<forall>x\<in>set xs. \<not> P x \<Longrightarrow> find P xs = None"
  by (simp add: find_None_iff)

lemma driver_matches_iff:
  "driver_matches needle d \<longleftrightarrow>
     (\<exists>a. name_acronym d = Some a \<and> a \<noteq> [] \<and> toLowerCase a = needle)
     \<or> (\<exists>n. driver_number d = Some n \<and> n \<noteq> 0 \<and> show_nat n = needle)
     \<or> (\<exists>l. last_name d = Some l \<and> l \<noteq> [] \<and> sublist needle (toLowerCase l))
     \<or> (\<exists>f. full_name d = Some f \<and> f \<noteq> [] \<and> sublist needle (toLowerCase f))"
  by (auto simp: driver_matches_def js_includes_sublist split: option.splits)

lemma resolveDriverNumber_none:
  assumes "tok \<noteq> []" and "\<forall>d\<in>set drivers. \<not> driver_matches (js_trim (toLowerCase tok)) d"
  shows "resolveDriverNumber (Resolved drivers) (Some tok) = Inr None"
  using assms by (simp add: resolveDriverNumber_def find_none)

lemma resolveDriverNumber_first:
  assumes "tok \<noteq> []" and "\<forall>x\<in>set pre. \<not> driver_matches (js_trim (toLowerCase tok)) x"
    and "driver_matches (js_trim (toLowerCase tok)) d"
  shows "resolveDriverNumber (Resolved (pre @ d # post)) (Some tok) = Inr (driver_number d)"
  using assms by (simp add: resolveDriverNumber_def find_first)

lemma resolveDriverNumber_head:
  assumes "tok \<noteq> []" and "driver_matches (js_trim (toLowerCase tok)) d"
  shows "resolveDriverNumber (Resolved (d # rest)) (Some tok) = Inr (driver_number d)"
  using resolveDriverNumber_first[of tok "[]" d rest] assms by simp

lemma verstappen_matches:
  fixes p :: "nat option"
  defines "d \<equiv> \<lparr>driver_number = Some 1, name_acronym = Some ''VER'',
                  last_name = Some ''Verstappen'', full_name = Some ''Max Verstappen'',
                  position = p\<rparr>"
  shows "driver_matches (js_trim (toLowerCase ''ver'')) d"
    and "driver_matches (js_trim (toLowerCase ''1'')) d"
    and "driver_matches (js_trim (toLowerCase ''verstappen'')) d"
    and "driver_matches (js_trim (toLowerCase ''Max Verstappen'')) d"
  by (simp_all add: d_def driver_matches_def js_string_eval)

text \<open>
  C5, as the claim words it: for every token, the resolver returns the first roster entry
  the token matches. The resolver opens with \<open>if (!driverInput) return null\<close>: on the
  empty token it returns absent, although the empty string is contained in every surname.
\<close>

theorem resolveDriverNumber_empty_token_counterexample:
  "resolveDriverNumber
     (Resolved [\<lparr>driver_number = Some 1, name_acronym = Some ''VER'',
                 last_name = Some ''Verstappen'', full_name = Some ''Max Verstappen'',
                 position = None\<rparr>]) (Some '''') = Inr None
   \<and> spec_resolve
     [\<lparr>driver_number = Some 1, name_acronym = Some ''VER'',
       last_name = Some ''Verstappen'', full_name = Some ''Max Verstappen'',
       position = None\<rparr>] '''' = Some 1"
  by (simp add: resolveDriverNumber_def spec_resolve_def spec_matches_def js_string_eval)

text \<open>
  C5, amended: an absent or empty token resolves to absent. For every roster and every
  non-empty token, the resolver lower-cases and trims the token and returns the driver
  number of the first roster entry that satisfies any of: its non-empty acronym,
  lower-cased, equals the token; its non-zero car number, as a string, equals the token;
  its non-empty surname, lower-cased, contains the token; its non-empty full name,
  lower-cased, contains the token. No match yields absent, never an error. Hence, when
  the roster's first entry has acronym "VER", number 1, surname "Verstappen" and full name
  "Max Verstappen", the inputs "ver", "1", "verstappen" and "Max Verstappen" all resolve
  to driver number 1.
\<close>

theorem resolveDriverNumber_first_match:
  "resolveDriverNumber roster None = Inr None
   \<and> resolveDriverNumber roster (Some []) = Inr None
   \<and> (tok \<noteq> [] \<longrightarrow>
        ((\<forall>x\<in>set drivers. \<not> driver_matches (js_trim (toLowerCase tok)) x) \<longrightarrow>
           resolveDriverNumber (Resolved drivers) (Some tok) = Inr None)
        \<and> (\<forall>pre d post.
             drivers = pre @ d # post
             \<and> (\<forall>x\<in>set pre. \<not> driver_matches (js_trim (toLowerCase tok)) x)
             \<and> driver_matches (js_trim (toLowerCase tok)) d \<longrightarrow>
             resolveDriverNumber (Resolved drivers) (Some tok) = Inr (driver_number d)))
   \<and> (driver_matches needle e \<longleftrightarrow>
        (\<exists>a. name_acronym e = Some a \<and> a \<noteq> [] \<and> toLowerCase a = needle)
        \<or> (\<exists>n. driver_number e = Some n \<and> n \<noteq> 0 \<and> show_nat n = needle)
        \<or> (\<exists>l. last_name e = Some l \<and> l \<noteq> [] \<and> sublist needle (toLowerCase l))
        \<or> (\<exists>f. full_name e = Some f \<and> f \<noteq> [] \<and> sublist needle (toLowerCase f)))
   \<and> (\<forall>t\<in>set [''ver'', ''1'', ''verstappen'', ''Max Verstappen''].
        resolveDriverNumber
          (Resolved (\<lparr>driver_number = Some 1, name_acronym = Some ''VER'',
                      last_name = Some ''Verstappen'', full_name = Some ''Max Verstappen'',
                      position = p\<rparr> # rest)) (Some t) = Inr (Some 1))"
proof -
  have a: "resolveDriverNumber roster None = Inr None
           \<and> resolveDriverNumber roster (Some []) = Inr None"
    by (simp add: resolveDriverNumber_def)
  have b: "tok \<noteq> [] \<longrightarrow>
        ((\<forall>x\<in>set drivers. \<not> driver_matches (js_trim (toLowerCase tok)) x) \<longrightarrow>
           resolveDriverNumber (Resolved drivers) (Some tok) = Inr None)
        \<and> (\<forall>pre d post.
             drivers = pre @ d # post
             \<and> (\<forall>x\<in>set pre. \<not> driver_matches (js_trim (toLowerCase tok)) x)
             \<and> driver_matches (js_trim (toLowerCase tok)) d \<longrightarrow>
             resolveDriverNumber (Resolved drivers) (Some tok) = Inr (driver_number d))"
    using resolveDriverNumber_none resolveDriverNumber_first by blast
  let ?d = "\<lparr>driver_number = Some 1, name_acronym = Some ''VER'',
              last_name = Some ''Verstappen'', full_name = Some ''Max Verstappen'',
              position = p\<rparr>"
  have d: "\<forall>t\<in>set [''ver'', ''1'', ''verstappen'', ''Max Verstappen''].
        resolveDriverNumber (Resolved (?d # rest)) (Some t) = Inr (Some 1)"
    using resolveDriverNumber_head[OF _ verstappen_matches(1), of p rest]
      resolveDriverNumber_head[OF _ verstappen_matches(2), of p rest]
      resolveDriverNumber_head[OF _ verstappen_matches(3), of p rest]
      resolveDriverNumber_head[OF _ verstappen_matches(4), of p rest]
    by simp
  from a b d driver_matches_iff[of needle e] show ?thesis by blast
qed

theorem resolveDriverNumber_first_match_witness:
  "''Ham '' \<noteq> []
   \<and> \<not> driver_matches (js_trim (toLowerCase ''Ham ''))
         \<lparr>driver_number = Some 1, name_acronym = Some ''VER'',
          last_name = Some ''Verstappen'', full_name = Some ''Max Verstappen'',
          position = None\<rparr>
   \<and> driver_matches (js_trim (toLowerCase ''Ham ''))
         \<lparr>driver_number = Some 44, name_acronym = Some ''HAM'',
          last_name = Some ''Hamilton'', full_name = Some ''Lewis Hamilton'',
          position = None\<rparr>
   \<and> resolveDriverNumber
       (Resolved [\<lparr>driver_number = Some 1, name_acronym = Some ''VER'',
                   last_name = Some ''Verstappen'', full_name = Some ''Max Verstappen'',
                   position = None\<rparr>,
                  \<lparr>driver_number = Some 44, name_acronym = Some ''HAM'',
                   last_name = Some ''Hamilton'', full_name = Some ''Lewis Hamilton'',
                   position = None\<rparr>]) (Some ''Ham '') = Inr (Some 44)
   \<and> resolveDriverNumber
       (Resolved [\<lparr>driver_number = Some 1, name_acronym = Some ''VER'',
                   last_name = Some ''Verstappen'', full_name = Some ''Max Verstappen'',
                   position = None\<rparr>]) (Some ''Ham '') = Inr None"
proof -
  let ?v = "\<lparr>driver_number = Some 1, name_acronym = Some ''VER'',
              last_name = Some ''Verstappen'', full_name = Some ''Max Verstappen'',
              position = None\<rparr>"
  let ?h = "\<lparr>driver_number = Some 44, name_acronym = Some ''HAM'',
              last_name = Some ''Hamilton'', full_name = Some ''Lewis Hamilton'',
              position = None\<rparr>"
  have n: "js_trim (toLowerCase ''Ham '') = ''ham''" by (simp add: js_string_eval)
  have h1: "''Ham '' \<noteq> []" by simp
  have h2: "\<not> driver_matches (js_trim (toLowerCase ''Ham '')) ?v"
    unfolding n by (simp add: driver_matches_def js_string_eval)
  have h3: "driver_matches (js_trim (toLowerCase ''Ham '')) ?h"
    unfolding n by (simp add: driver_matches_def js_string_eval)
  from h2 have h2': "\<forall>x\<in>set [?v]. \<not> driver_matches (js_trim (toLowerCase ''Ham '')) x"
    by simp
  have s: "[?v, ?h] = [?v] @ ?h # []" by simp
  from resolveDriverNumber_first_match[of _ "''Ham ''" "[?v, ?h]"] h1 s h2' h3
  have r1: "resolveDriverNumber (Resolved [?v, ?h]) (Some ''Ham '') = Inr (driver_number ?h)"
    by blast
  from resolveDriverNumber_first_match[of _ "''Ham ''" "[?v]"] h1 h2'
  have r2: "resolveDriverNumber (Resolved [?v]) (Some ''Ham '') = Inr None"
    by blast
  from h1 h2 h3 r1 r2 show ?thesis by simp
qed

section \<open>Pit stops and tyre stints\<close>

lemma stint_matches_iff:
  "stint_matches p s \<longleftrightarrow>
     stint_driver_number s = pit_driver_number p
     \<and> lap_start s - 1 \<le> pit_lap_number p \<and> pit_lap_number p \<le> lap_start s + 1"
  by (auto simp: stint_matches_def)

lemma format_enhance_unmatched:
  "\<forall>s\<in>set ss. \<not> stint_matches p s \<Longrightarrow>
     tyres_fitted (format_pit dMap (enhance_pit ss p)) = ''Unknown''"
  by (simp add: enhance_pit_def format_pit_def find_none)

lemma format_enhance_first:
  "\<forall>x\<in>set pre. \<not> stint_matches p x \<Longrightarrow> stint_matches p s \<Longrightarrow>
     tyres_fitted (format_pit dMap (enhance_pit (pre @ s # post) p))
     = (case compound s of Some c \<Rightarrow> if c \<noteq> [] then c else ''Unknown'' | None \<Rightarrow> ''Unknown'')"
  by (simp add: enhance_pit_def format_pit_def find_first)

lemma format_enhance_lap:
  "row_lap (format_pit dMap (enhance_pit ss p)) = pit_lap_number p"
  by (simp add: enhance_pit_def format_pit_def split: option.splits)

lemma resolveDriverNumber_resolved:
  "\<exists>r. resolveDriverNumber (Resolved ds) bd = Inr r"
  by (simp add: resolveDriverNumber_def split: option.splits)

lemma pitstops_summary_rows:
  "\<exists>targetPits.
     pitstops_summary bd (Resolved ps) (Resolved ds) stints
     = Inr (map (format_pit (dMap_of ds))
             (case stints of Rejected msg \<Rightarrow> targetPits
                           | Resolved ss \<Rightarrow> map (enhance_pit ss) targetPits))
     \<and> set targetPits \<subseteq> set ps \<and> (\<not> truthy_str bd \<longrightarrow> targetPits = ps)"
proof (cases "truthy_str bd")
  case False
  then show ?thesis by (simp add: pitstops_summary_def Let_def)
next
  case True
  obtain r where r: "resolveDriverNumber (Resolved ds) bd = Inr r"
    using resolveDriverNumber_resolved by blast
  let ?tp = "case r of Some n \<Rightarrow> if n \<noteq> 0 then filter (\<lambda>p. pit_driver_number p = n) ps else ps
                     | None \<Rightarrow> ps"
  have "set ?tp \<subseteq> set ps" by (auto split: option.splits)
  moreover from True r
  have "pitstops_summary bd (Resolved ps) (Resolved ds) stints
     = Inr (map (format_pit (dMap_of ds))
             (case stints of Rejected msg \<Rightarrow> ?tp | Resolved ss \<Rightarrow> map (enhance_pit ss) ?tp))"
    by (simp add: pitstops_summary_def Let_def)
  ultimately show ?thesis using True by blast
qed

text \<open>
  C8, as the claim words it: a stop is joined to the stint whose lap range, widened by one
  lap, contains the stop's lap. The code compares the stop's lap with the stint's first
  lap only: a stop on lap 10 of a stint that runs from lap 1 to lap 20 lies in the range
  and is reported with unknown tyres.
\<close>

theorem pitstops_summary_range_counterexample:
  "spec_stint_matches
     \<lparr>pit_driver_number = 1, pit_lap_number = 10, pit_duration = Some 22, tyre_fitted = None\<rparr>
     \<lparr>stint_driver_number = 1, lap_start = 1, lap_end = 20, compound = Some ''SOFT''\<rparr>
   \<and> pitstops_summary None
       (Resolved [\<lparr>pit_driver_number = 1, pit_lap_number = 10, pit_duration = Some 22,
                   tyre_fitted = None\<rparr>])
       (Resolved [])
       (Resolved [\<lparr>stint_driver_number = 1, lap_start = 1, lap_end = 20,
                   compound = Some ''SOFT''\<rparr>])
     = Inr [\<lparr>row_driver = CarNumber 1, row_lap = 10, row_duration = Some 22,
             tyres_fitted = ''Unknown''\<rparr>]"
  by (simp add: spec_stint_matches_def pitstops_summary_def enhance_pit_def stint_matches_def
        format_pit_def label_of_def dMap_of_def obj_get_def truthy_str_def)

text \<open>
  C8, amended: for every list of pit stops and every outcome of the stint request, the
  pit-stop summary handler does not fail and reports one row per selected stop (all stops
  when no driver filter is given). When the stints arrive, a stop is joined to the first
  stint of the same driver whose first lap is within one lap of the stop's lap number, and
  reports that stint's compound; a stop with no such stint, or whose stint has no
  compound, reports "Unknown".
\<close>

theorem pitstops_summary_join:
  "(\<exists>rows targetPits.
      pitstops_summary bd (Resolved ps) (Resolved ds) stints = Inr rows
      \<and> set targetPits \<subseteq> set ps \<and> (\<not> truthy_str bd \<longrightarrow> targetPits = ps)
      \<and> length rows = length targetPits
      \<and> (\<forall>i<length rows. \<forall>ss. stints = Resolved ss \<longrightarrow>
            row_lap (rows ! i) = pit_lap_number (targetPits ! i)
            \<and> ((\<forall>s\<in>set ss. \<not> stint_matches (targetPits ! i) s) \<longrightarrow>
                 tyres_fitted (rows ! i) = ''Unknown'')
            \<and> (\<forall>pre s post.
                 ss = pre @ s # post \<and> (\<forall>x\<in>set pre. \<not> stint_matches (targetPits ! i) x)
                 \<and> stint_matches (targetPits ! i) s \<longrightarrow>
                 tyres_fitted (rows ! i)
                 = (case compound s of
                      Some c \<Rightarrow> if c \<noteq> [] then c else ''Unknown''
                    | None \<Rightarrow> ''Unknown''))))
   \<and> (stint_matches p s \<longleftrightarrow>
        stint_driver_number s = pit_driver_number p
        \<and> lap_start s - 1 \<le> pit_lap_number p \<and> pit_lap_number p \<le> lap_start s + 1)"
proof -
  obtain targetPits where
    r: "pitstops_summary bd (Resolved ps) (Resolved ds) stints
        = Inr (map (format_pit (dMap_of ds))
               (case stints of Rejected msg \<Rightarrow> targetPits
                             | Resolved ss \<Rightarrow> map (enhance_pit ss) targetPits))"
    and t: "set targetPits \<subseteq> set ps" "\<not> truthy_str bd \<longrightarrow> targetPits = ps"
    using pitstops_summary_rows by blast
  let ?rows = "map (format_pit (dMap_of ds))
               (case stints of Rejected msg \<Rightarrow> targetPits
                             | Resolved ss \<Rightarrow> map (enhance_pit ss) targetPits)"
  have len: "length ?rows = length targetPits" by (simp split: fetch.splits)
  have rows: "\<forall>i<length ?rows. \<forall>ss. stints = Resolved ss \<longrightarrow>
            row_lap (?rows ! i) = pit_lap_number (targetPits ! i)
            \<and> ((\<forall>s\<in>set ss. \<not> stint_matches (targetPits ! i) s) \<longrightarrow>
                 tyres_fitted (?rows ! i) = ''Unknown'')
            \<and> (\<forall>pre s post.
                 ss = pre @ s # post \<and> (\<forall>x\<in>set pre. \<not> stint_matches (targetPits ! i) x)
                 \<and> stint_matches (targetPits ! i) s \<longrightarrow>
                 tyres_fitted (?rows ! i)
                 = (case compound s of
                      Some c \<Rightarrow> if c \<noteq> [] then c else ''Unknown''
                    | None \<Rightarrow> ''Unknown''))"
  proof (intro allI impI)
    fix i ss
    assume i: "i < length ?rows" and ss: "stints = Resolved ss"
    from i len have i': "i < length targetPits" by simp
    with ss have row: "?rows ! i = format_pit (dMap_of ds) (enhance_pit ss (targetPits ! i))"
      by simp
    show "row_lap (?rows ! i) = pit_lap_number (targetPits ! i)
            \<and> ((\<forall>s\<in>set ss. \<not> stint_matches (targetPits ! i) s) \<longrightarrow>
                 tyres_fitted (?rows ! i) = ''Unknown'')
            \<and> (\<forall>pre s post.
                 ss = pre @ s # post \<and> (\<forall>x\<in>set pre. \<not> stint_matches (targetPits ! i) x)
                 \<and> stint_matches (targetPits ! i) s \<longrightarrow>
                 tyres_fitted (?rows ! i)
                 = (case compound s of
                      Some c \<Rightarrow> if c \<noteq> [] then c else ''Unknown''
                    | None \<Rightarrow> ''Unknown''))"
      unfolding row
      using format_enhance_lap format_enhance_unmatched format_enhance_first by blast
  qed
  from r t len rows stint_matches_iff[of p s] show ?thesis by blast
qed

theorem pitstops_summary_join_witness:
  "stint_matches
       \<lparr>pit_driver_number = 1, pit_lap_number = 20, pit_duration = Some 22, tyre_fitted = None\<rparr>
       \<lparr>stint_driver_number = 1, lap_start = 21, lap_end = 57, compound = Some ''HARD''\<rparr>
   \<and> \<not> stint_matches
       \<lparr>pit_driver_number = 1, pit_lap_number = 20, pit_duration = Some 22, tyre_fitted = None\<rparr>
       \<lparr>stint_driver_number = 1, lap_start = 1, lap_end = 20, compound = Some ''SOFT''\<rparr>
   \<and> (\<exists>rows. pitstops_summary None
         (Resolved [\<lparr>pit_driver_number = 1, pit_lap_number = 20, pit_duration = Some 22,
                     tyre_fitted = None\<rparr>,
                    \<lparr>pit_driver_number = 44, pit_lap_number = 30, pit_duration = Some 23,
                     tyre_fitted = None\<rparr>])
         (Resolved [])
         (Resolved [\<lparr>stint_driver_number = 1, lap_start = 1, lap_end = 20,
                     compound = Some ''SOFT''\<rparr>,
                    \<lparr>stint_driver_number = 1, lap_start = 21, lap_end = 57,
                     compound = Some ''HARD''\<rparr>]) = Inr rows
       \<and> length rows = 2
       \<and> tyres_fitted (rows ! 0) = ''HARD'' \<and> tyres_fitted (rows ! 1) = ''Unknown'')"
proof -
  let ?p = "\<lparr>pit_driver_number = 1, pit_lap_number = 20, pit_duration = Some 22,
              tyre_fitted = None\<rparr>"
  let ?p' = "\<lparr>pit_driver_number = 44, pit_lap_number = 30, pit_duration = Some 23,
              tyre_fitted = None\<rparr>"
  let ?s1 = "\<lparr>stint_driver_number = 1, lap_start = 1, lap_end = 20, compound = Some ''SOFT''\<rparr>"
  let ?s2 = "\<lparr>stint_driver_number = 1, lap_start = 21, lap_end = 57, compound = Some ''HARD''\<rparr>"
  note iff2 = pitstops_summary_join[of None "[?p, ?p']" "[]" "Resolved [?s1, ?s2]" ?p ?s2,
                THEN conjunct2]
  note iff1 = pitstops_summary_join[of None "[?p, ?p']" "[]" "Resolved [?s1, ?s2]" ?p ?s1,
                THEN conjunct2]
  have m2: "stint_matches ?p ?s2" unfolding iff2 by simp
  have m1: "\<not> stint_matches ?p ?s1" unfolding iff1 by simp
  have n1: "\<forall>s\<in>set [?s1, ?s2]. \<not> stint_matches ?p' s" by (simp add: stint_matches_def)
  note run = pitstops_summary_join[of None "[?p, ?p']" "[]" "Resolved [?s1, ?s2]" ?p ?s2,
               THEN conjunct1]
  then obtain rows targetPits where
    r: "pitstops_summary None (Resolved [?p, ?p']) (Resolved []) (Resolved [?s1, ?s2]) = Inr rows"
    and t: "\<not> truthy_str None \<longrightarrow> targetPits = [?p, ?p']"
    and len: "length rows = length targetPits"
    and rows: "\<forall>i<length rows. \<forall>ss. Resolved [?s1, ?s2] = Resolved ss \<longrightarrow>
            row_lap (rows ! i) = pit_lap_number (targetPits ! i)
            \<and> ((\<forall>s\<in>set ss. \<not> stint_matches (targetPits ! i) s) \<longrightarrow>
                 tyres_fitted (rows ! i) = ''Unknown'')
            \<and> (\<forall>pre s post.
                 ss = pre @ s # post \<and> (\<forall>x\<in>set pre. \<not> stint_matches (targetPits ! i) x)
                 \<and> stint_matches (targetPits ! i) s \<longrightarrow>
                 tyres_fitted (rows ! i)
                 = (case compound s of
                      Some c \<Rightarrow> if c \<noteq> [] then c else ''Unknown''
                    | None \<Rightarrow> ''Unknown''))"
    by (elim exE conjE)
  from t have tp: "targetPits = [?p, ?p']" by (simp add: truthy_str_def)
  with len have l2: "length rows = 2" by simp
  from rows l2 have r0: "\<forall>pre s post.
                 [?s1, ?s2] = pre @ s # post \<and> (\<forall>x\<in>set pre. \<not> stint_matches (targetPits ! 0) x)
                 \<and> stint_matches (targetPits ! 0) s \<longrightarrow>
                 tyres_fitted (rows ! 0)
                 = (case compound s of
                      Some c \<Rightarrow> if c \<noteq> [] then c else ''Unknown''
                    | None \<Rightarrow> ''Unknown'')"
    by simp
  have "[?s1, ?s2] = [?s1] @ ?s2 # [] \<and> (\<forall>x\<in>set [?s1]. \<not> stint_matches (targetPits ! 0) x)
        \<and> stint_matches (targetPits ! 0) ?s2"
    using m1 m2 tp by simp
  with r0 have "tyres_fitted (rows ! 0)
                 = (case compound ?s2 of
                      Some c \<Rightarrow> if c \<noteq> [] then c else ''Unknown''
                    | None \<Rightarrow> ''Unknown'')"
    by blast
  then have h: "tyres_fitted (rows ! 0) = ''HARD''" by simp
  from rows l2 have "(\<forall>s\<in>set [?s1, ?s2]. \<not> stint_matches (targetPits ! 1) s) \<longrightarrow>
                 tyres_fitted (rows ! 1) = ''Unknown''"
    by simp
  with n1 tp have u: "tyres_fitted (rows ! 1) = ''Unknown''" by simp
  from r l2 h u have e: "\<exists>rows. pitstops_summary None (Resolved [?p, ?p']) (Resolved [])
                            (Resolved [?s1, ?s2]) = Inr rows
       \<and> length rows = 2
       \<and> tyres_fitted (rows ! 0) = ''HARD'' \<and> tyres_fitted (rows ! 1) = ''Unknown''"
    by (intro exI conjI)
  from m2 m1 e show ?thesis by (intro conjI)
qed

section \<open>Position change between two laps\<close>

lemma obj_get_obj_set:
  "obj_get (obj_set k v obj) k' = (if k' = k then Some v else obj_get obj k')"
  by (induction obj) (auto simp: obj_get_def)

lemma obj_keys_iff: "d \<in> set (obj_keys obj) \<longleftrightarrow> obj_get obj d \<noteq> None"
  by (simp add: obj_keys_def obj_get_def map_of_eq_None_iff)

lemma posMap_of_Nil: "posMap_of [] = []"
  by (simp add: posMap_of_def)

lemma posMap_of_snoc:
  "posMap_of (es @ [e]) = obj_set (fst e) (length es + 1) (posMap_of es)"
  by (simp add: posMap_of_def enumerate_append_eq)

lemma posMap_of_get_snoc:
  "obj_get (posMap_of (es @ [e])) d
   = (if d = fst e then Some (length es + 1) else obj_get (posMap_of es) d)"
  by (simp only: posMap_of_snoc obj_get_obj_set)

lemma posMap_of_position:
  "obj_get (posMap_of es) d = Some p \<Longrightarrow> 1 \<le> p \<and> p \<le> length es \<and> fst (es ! (p - 1)) = d"
proof (induction es arbitrary: p rule: rev_induct)
  case Nil
  then show ?case by (simp add: posMap_of_Nil obj_get_def)
next
  case (snoc e es)
  show ?case
  proof (cases "d = fst e")
    case True
    with snoc.prems have "p = length es + 1" by (simp add: posMap_of_get_snoc)
    with True show ?thesis by simp
  next
    case False
    with snoc.prems have "obj_get (posMap_of es) d = Some p" by (simp add: posMap_of_get_snoc)
    then have "1 \<le> p \<and> p \<le> length es \<and> fst (es ! (p - 1)) = d" by (rule snoc.IH)
    then show ?thesis by (auto simp: nth_append)
  qed
qed

lemma posMap_of_present:
  "obj_get (posMap_of es) d \<noteq> None \<longleftrightarrow> d \<in> fst ` set es"
proof (induction es rule: rev_induct)
  case Nil
  then show ?case by (simp add: posMap_of_Nil obj_get_def)
next
  case (snoc e es)
  then show ?case by (auto simp: posMap_of_get_snoc)
qed

lemma posMap_of_distinct:
  "distinct (map fst es) \<Longrightarrow> i < length es \<Longrightarrow> obj_get (posMap_of es) (fst (es ! i)) = Some (i + 1)"
proof (induction es rule: rev_induct)
  case Nil
  then show ?case by simp
next
  case (snoc e es)
  show ?case
  proof (cases "i = length es")
    case True
    then show ?thesis by (simp add: posMap_of_get_snoc)
  next
    case False
    with snoc.prems have i: "i < length es" by simp
    then have "es ! i \<in> set es" by simp
    then have m: "fst (es ! i) \<in> set (map fst es)" by simp
    from snoc.prems(1) have "fst e \<notin> set (map fst es)" by simp
    with m have "fst (es ! i) \<noteq> fst e" by metis
    moreover from snoc.prems(1) i have "obj_get (posMap_of es) (fst (es ! i)) = Some (i + 1)"
      using snoc.IH by simp
    ultimately show ?thesis using i by (simp add: posMap_of_get_snoc nth_append)
  qed
qed

lemma withFinish_sorted: "sorted (map snd (withFinish allLaps n))"
  by (simp add: withFinish_def)

lemma withFinish_members:
  "(d, t) \<in> set (withFinish allLaps n) \<longleftrightarrow>
     (\<exists>l\<in>set allLaps. \<exists>s du. lap_number l = n \<and> lap_driver_number l = d
        \<and> lap_date_start l = Some s \<and> lap_duration l = Some du \<and> du \<noteq> 0
        \<and> t = of_int s + du * 1000)"
  by (auto simp: withFinish_def finish_time_def ms_of_def num_of_def image_iff)

lemma set_map_filter: "set (List.map_filter f xs) = {y. \<exists>x\<in>set xs. f x = Some y}"
  by (induction xs) (auto split: option.splits)

lemma change_of_Some:
  "change_of dm pp pc k = Some c \<Longrightarrow>
     ch_driver_number c = k \<and> obj_get pp k = Some (lap_start_pos c)
     \<and> obj_get pc k = Some (lap_end_pos c)
     \<and> positions_gained c = int (lap_start_pos c) - int (lap_end_pos c)"
  by (auto simp: change_of_def Let_def split: option.splits if_splits)

lemma changes_of_member:
  "c \<in> set (changes_of dm pp pc) \<Longrightarrow>
     obj_get pp (ch_driver_number c) = Some (lap_start_pos c)
     \<and> obj_get pc (ch_driver_number c) = Some (lap_end_pos c)
     \<and> positions_gained c = int (lap_start_pos c) - int (lap_end_pos c)"
  using change_of_Some by (fastforce simp: changes_of_def set_map_filter)

lemma changes_of_complete:
  assumes "obj_get pp d = Some p" and "obj_get pc d = Some q" and "p \<noteq> 0" and "q \<noteq> 0"
  shows "\<exists>c\<in>set (changes_of dm pp pc). ch_driver_number c = d"
proof -
  from assms(2) have k: "d \<in> set (obj_keys pc)" by (simp add: obj_keys_iff)
  from assms obtain c where c: "change_of dm pp pc d = Some c"
    by (auto simp: change_of_def Let_def)
  then have "ch_driver_number c = d" using change_of_Some by blast
  moreover from k c have "c \<in> set (changes_of dm pp pc)"
    by (auto simp: changes_of_def set_map_filter)
  ultimately show ?thesis by blast
qed

lemma position_change_summary_result:
  assumes "1 < N"
  shows "\<exists>changes.
           position_change_summary N bd (Resolved allLaps) (Resolved ds) = Inr changes
           \<and> set changes \<subseteq> set (changes_of (dMap_of ds) (getLeaderboard allLaps (N - 1))
                                   (getLeaderboard allLaps N))
           \<and> (\<not> truthy_str bd \<longrightarrow>
                set changes = set (changes_of (dMap_of ds) (getLeaderboard allLaps (N - 1))
                                     (getLeaderboard allLaps N)))"
proof (cases "truthy_str bd")
  case False
  with assms show ?thesis by (simp add: position_change_summary_def Let_def)
next
  case True
  obtain r where r: "resolveDriverNumber (Resolved ds) bd = Inr r"
    by (cases "resolveDriverNumber (Resolved ds) bd")
       (auto simp: resolveDriverNumber_def split: option.splits if_splits)
  with assms True show ?thesis
    by (auto simp: position_change_summary_def Let_def split: option.splits)
qed

lemma position_change_lap_one:
  "N \<le> 1 \<Longrightarrow> position_change_summary N bd laps ds
                 = Inl (Error ''Cannot calculate changes for Lap 1.'')"
  by (simp add: position_change_summary_def)

lemma ranking_positions_3:
  assumes "map fst es = [a, b, c]" and "distinct [a, b, c]"
  shows "obj_get (posMap_of es) a = Some 1 \<and> obj_get (posMap_of es) b = Some 2
         \<and> obj_get (posMap_of es) c = Some 3"
proof -
  from assms have d: "distinct (map fst es)" by simp
  from assms(1) have len: "length es = 3" by (metis length_map length_Cons list.size(3) numeral_3_eq_3)
  from assms(1) len have n: "fst (es ! 0) = a" "fst (es ! 1) = b" "fst (es ! 2) = c"
    by (metis nth_map nth_Cons_0 zero_less_numeral,
        metis nth_map nth_Cons_0 nth_Cons_Suc One_nat_def one_less_numeral_iff semiring_norm(77),
        metis nth_map nth_Cons_0 nth_Cons_Suc numeral_2_eq_2 lessI numeral_3_eq_3)
  from d len have "obj_get (posMap_of es) (fst (es ! 0)) = Some (0 + 1)"
    by (intro posMap_of_distinct) simp_all
  moreover from d len have "obj_get (posMap_of es) (fst (es ! 1)) = Some (1 + 1)"
    by (intro posMap_of_distinct) simp_all
  moreover from d len have "obj_get (posMap_of es) (fst (es ! 2)) = Some (2 + 1)"
    by (intro posMap_of_distinct) simp_all
  ultimately show ?thesis using n by simp
qed

text \<open>
  C3: for every lap N > 1 and every lap dataset, the position-change handler ranks the
  drivers of lap N and of lap N - 1 ascending by finish time (the lap's start plus its
  duration, over the laps of that number that carry both), gives a driver the position of
  its entry in that ranking, includes a driver only if it has a position in both laps (and,
  without a driver filter, every such driver), and reports
  \<open>positions_gained = position(N - 1) - position(N)\<close>. When lap N - 1 ranks [A, B, C]
  and lap N ranks [B, A, C], A's \<open>positions_gained\<close> is -1, B's is 1 and C's is 0.
\<close>

theorem position_change_summary_ranks:
  "(1 < N \<longrightarrow>
      (\<exists>changes.
          position_change_summary N bd (Resolved allLaps) (Resolved ds) = Inr changes
          \<and> (\<forall>ch\<in>set changes.
                obj_get (getLeaderboard allLaps (N - 1)) (ch_driver_number ch)
                = Some (lap_start_pos ch)
                \<and> obj_get (getLeaderboard allLaps N) (ch_driver_number ch)
                  = Some (lap_end_pos ch)
                \<and> positions_gained ch = int (lap_start_pos ch) - int (lap_end_pos ch))
          \<and> (\<not> truthy_str bd \<longrightarrow>
                (\<forall>d. d \<in> fst ` set (withFinish allLaps (N - 1))
                      \<and> d \<in> fst ` set (withFinish allLaps N) \<longrightarrow>
                      (\<exists>ch\<in>set changes. ch_driver_number ch = d)))
          \<and> (\<forall>a b c.
                \<not> truthy_str bd \<and> distinct [a, b, c]
                \<and> map fst (withFinish allLaps (N - 1)) = [a, b, c]
                \<and> map fst (withFinish allLaps N) = [b, a, c] \<longrightarrow>
                ch_driver_number ` set changes = {a, b, c}
                \<and> (\<forall>ch\<in>set changes.
                      (ch_driver_number ch = a \<longrightarrow> positions_gained ch = - 1)
                      \<and> (ch_driver_number ch = b \<longrightarrow> positions_gained ch = 1)
                      \<and> (ch_driver_number ch = c \<longrightarrow> positions_gained ch = 0)))))
   \<and> sorted (map snd (withFinish allLaps n))
   \<and> ((d, t) \<in> set (withFinish allLaps n) \<longleftrightarrow>
        (\<exists>l\<in>set allLaps. \<exists>s du. lap_number l = n \<and> lap_driver_number l = d
           \<and> lap_date_start l = Some s \<and> lap_duration l = Some du \<and> du \<noteq> 0
           \<and> t = of_int s + du * 1000))
   \<and> (obj_get (getLeaderboard allLaps n) d = Some p \<longrightarrow>
        1 \<le> p \<and> p \<le> length (withFinish allLaps n) \<and> fst (withFinish allLaps n ! (p - 1)) = d)
   \<and> (obj_get (getLeaderboard allLaps n) d \<noteq> None \<longleftrightarrow> d \<in> fst ` set (withFinish allLaps n))
   \<and> (distinct (map fst (withFinish allLaps n)) \<and> i < length (withFinish allLaps n) \<longrightarrow>
        obj_get (getLeaderboard allLaps n) (fst (withFinish allLaps n ! i)) = Some (i + 1))"
proof -
  let ?prev = "getLeaderboard allLaps (N - 1)" and ?cur = "getLeaderboard allLaps N"
  let ?all = "changes_of (dMap_of ds) ?prev ?cur"
  have handler: "\<exists>changes.
          position_change_summary N bd (Resolved allLaps) (Resolved ds) = Inr changes
          \<and> (\<forall>ch\<in>set changes.
                obj_get ?prev (ch_driver_number ch) = Some (lap_start_pos ch)
                \<and> obj_get ?cur (ch_driver_number ch) = Some (lap_end_pos ch)
                \<and> positions_gained ch = int (lap_start_pos ch) - int (lap_end_pos ch))
          \<and> (\<not> truthy_str bd \<longrightarrow>
                (\<forall>d. d \<in> fst ` set (withFinish allLaps (N - 1))
                      \<and> d \<in> fst ` set (withFinish allLaps N) \<longrightarrow>
                      (\<exists>ch\<in>set changes. ch_driver_number ch = d)))
          \<and> (\<forall>a b c.
                \<not> truthy_str bd \<and> distinct [a, b, c]
                \<and> map fst (withFinish allLaps (N - 1)) = [a, b, c]
                \<and> map fst (withFinish allLaps N) = [b, a, c] \<longrightarrow>
                ch_driver_number ` set changes = {a, b, c}
                \<and> (\<forall>ch\<in>set changes.
                      (ch_driver_number ch = a \<longrightarrow> positions_gained ch = - 1)
                      \<and> (ch_driver_number ch = b \<longrightarrow> positions_gained ch = 1)
                      \<and> (ch_driver_number ch = c \<longrightarrow> positions_gained ch = 0)))"
    if N: "1 < N"
  proof -
    from N obtain changes where
      r: "position_change_summary N bd (Resolved allLaps) (Resolved ds) = Inr changes"
      and sub: "set changes \<subseteq> set ?all"
      and eq: "\<not> truthy_str bd \<longrightarrow> set changes = set ?all"
      using position_change_summary_result by blast
    have 1: "\<forall>ch\<in>set changes.
                obj_get ?prev (ch_driver_number ch) = Some (lap_start_pos ch)
                \<and> obj_get ?cur (ch_driver_number ch) = Some (lap_end_pos ch)
                \<and> positions_gained ch = int (lap_start_pos ch) - int (lap_end_pos ch)"
      using sub changes_of_member by blast
    have 2: "\<exists>ch\<in>set changes. ch_driver_number ch = d"
      if nb: "\<not> truthy_str bd"
        and d: "d \<in> fst ` set (withFinish allLaps (N - 1)) \<and> d \<in> fst ` set (withFinish allLaps N)"
      for d
    proof -
      from d obtain p q where p: "obj_get ?prev d = Some p" and q: "obj_get ?cur d = Some q"
        using posMap_of_present unfolding getLeaderboard_def by (metis not_None_eq)
      from p have "1 \<le> p" unfolding getLeaderboard_def using posMap_of_position by blast
      moreover from q have "1 \<le> q" unfolding getLeaderboard_def using posMap_of_position by blast
      ultimately have "\<exists>c\<in>set ?all. ch_driver_number c = d"
        using p q changes_of_complete[of ?prev d p ?cur q] by simp
      with nb eq show ?thesis by simp
    qed
    have 3: "ch_driver_number ` set changes = {a, b, c}
                \<and> (\<forall>ch\<in>set changes.
                      (ch_driver_number ch = a \<longrightarrow> positions_gained ch = - 1)
                      \<and> (ch_driver_number ch = b \<longrightarrow> positions_gained ch = 1)
                      \<and> (ch_driver_number ch = c \<longrightarrow> positions_gained ch = 0))"
      if h: "\<not> truthy_str bd \<and> distinct [a, b, c]
                \<and> map fst (withFinish allLaps (N - 1)) = [a, b, c]
                \<and> map fst (withFinish allLaps N) = [b, a, c]"
      for a b c
    proof -
      from h have dist: "distinct [a, b, c]" and dist': "distinct [b, a, c]" by auto
      from h have m1: "map fst (withFinish allLaps (N - 1)) = [a, b, c]"
        and m2: "map fst (withFinish allLaps N) = [b, a, c]" by auto
      have prev: "obj_get ?prev a = Some 1" "obj_get ?prev b = Some 2"
        "obj_get ?prev c = Some 3"
        unfolding getLeaderboard_def using ranking_positions_3[OF m1 dist] by simp_all
      have cur: "obj_get ?cur b = Some 1" "obj_get ?cur a = Some 2"
        "obj_get ?cur c = Some 3"
        unfolding getLeaderboard_def using ranking_positions_3[OF m2 dist'] by simp_all
      from h have s1: "fst ` set (withFinish allLaps (N - 1)) = {a, b, c}"
        by (metis list.set_map list.simps(15) empty_set)
      from h have s2: "fst ` set (withFinish allLaps N) = {a, b, c}"
        by (metis list.set_map list.simps(15) empty_set insert_commute)
      have gains: "(ch_driver_number ch = a \<longrightarrow> positions_gained ch = - 1)
                      \<and> (ch_driver_number ch = b \<longrightarrow> positions_gained ch = 1)
                      \<and> (ch_driver_number ch = c \<longrightarrow> positions_gained ch = 0)"
        if ch: "ch \<in> set changes" for ch
      proof -
        from ch 1 have f: "obj_get ?prev (ch_driver_number ch) = Some (lap_start_pos ch)"
          "obj_get ?cur (ch_driver_number ch) = Some (lap_end_pos ch)"
          "positions_gained ch = int (lap_start_pos ch) - int (lap_end_pos ch)"
          by blast+
        have "ch_driver_number ch = a \<longrightarrow> positions_gained ch = - 1"
          using f prev(1) cur(2) by auto
        moreover have "ch_driver_number ch = b \<longrightarrow> positions_gained ch = 1"
          using f prev(2) cur(1) by auto
        moreover have "ch_driver_number ch = c \<longrightarrow> positions_gained ch = 0"
          using f prev(3) cur(3) by auto
        ultimately show ?thesis by blast
      qed
      have "ch_driver_number ` set changes \<subseteq> {a, b, c}"
      proof
        fix k assume "k \<in> ch_driver_number ` set changes"
        then obtain ch where ch: "ch \<in> set changes" "k = ch_driver_number ch" by blast
        with 1 have "obj_get ?cur k \<noteq> None" by auto
        then have "k \<in> fst ` set (withFinish allLaps N)"
          unfolding getLeaderboard_def by (simp only: posMap_of_present)
        with s2 show "k \<in> {a, b, c}" by simp
      qed
      moreover have "{a, b, c} \<subseteq> ch_driver_number ` set changes"
      proof
        fix k assume "k \<in> {a, b, c}"
        with s1 s2 have "k \<in> fst ` set (withFinish allLaps (N - 1))
                         \<and> k \<in> fst ` set (withFinish allLaps N)" by simp
        with h 2 obtain ch where "ch \<in> set changes" "ch_driver_number ch = k" by blast
        then show "k \<in> ch_driver_number ` set changes" by blast
      qed
      ultimately show ?thesis using gains by blast
    qed
    from r 1 2 3 show ?thesis by blast
  qed
  have pos: "obj_get (getLeaderboard allLaps n) d = Some p \<longrightarrow>
        1 \<le> p \<and> p \<le> length (withFinish allLaps n) \<and> fst (withFinish allLaps n ! (p - 1)) = d"
    unfolding getLeaderboard_def using posMap_of_position by blast
  have pres: "obj_get (getLeaderboard allLaps n) d \<noteq> None
              \<longleftrightarrow> d \<in> fst ` set (withFinish allLaps n)"
    unfolding getLeaderboard_def by (rule posMap_of_present)
  have dist: "distinct (map fst (withFinish allLaps n)) \<and> i < length (withFinish allLaps n) \<longrightarrow>
        obj_get (getLeaderboard allLaps n) (fst (withFinish allLaps n ! i)) = Some (i + 1)"
    unfolding getLeaderboard_def using posMap_of_distinct by blast
  from handler withFinish_sorted[of allLaps n] withFinish_members[of d t allLaps n] pos pres dist
  show ?thesis by blast
qed

theorem position_change_summary_ranks_witness:
  "map fst (withFinish
      [\<lparr>lap_driver_number = 1, lap_number = 1, lap_date_start = Some 0, lap_duration = Some 90\<rparr>,
       \<lparr>lap_driver_number = 2, lap_number = 1, lap_date_start = Some 0, lap_duration = Some 91\<rparr>,
       \<lparr>lap_driver_number = 3, lap_number = 1, lap_date_start = Some 0, lap_duration = Some 92\<rparr>,
       \<lparr>lap_driver_number = 1, lap_number = 2, lap_date_start = Some 90000, lap_duration = Some 95\<rparr>,
       \<lparr>lap_driver_number = 2, lap_number = 2, lap_date_start = Some 91000, lap_duration = Some 90\<rparr>,
       \<lparr>lap_driver_number = 3, lap_number = 2, lap_date_start = Some 92000, lap_duration = Some 100\<rparr>]
      1) = [1, 2, 3]
   \<and> map fst (withFinish
      [\<lparr>lap_driver_number = 1, lap_number = 1, lap_date_start = Some 0, lap_duration = Some 90\<rparr>,
       \<lparr>lap_driver_number = 2, lap_number = 1, lap_date_start = Some 0, lap_duration = Some 91\<rparr>,
       \<lparr>lap_driver_number = 3, lap_number = 1, lap_date_start = Some 0, lap_duration = Some 92\<rparr>,
       \<lparr>lap_driver_number = 1, lap_number = 2, lap_date_start = Some 90000, lap_duration = Some 95\<rparr>,
       \<lparr>lap_driver_number = 2, lap_number = 2, lap_date_start = Some 91000, lap_duration = Some 90\<rparr>,
       \<lparr>lap_driver_number = 3, lap_number = 2, lap_date_start = Some 92000, lap_duration = Some 100\<rparr>]
      2) = [2, 1, 3]
   \<and> position_change_summary 2 None
      (Resolved
      [\<lparr>lap_driver_number = 1, lap_number = 1, lap_date_start = Some 0, lap_duration = Some 90\<rparr>,
       \<lparr>lap_driver_number = 2, lap_number = 1, lap_date_start = Some 0, lap_duration = Some 91\<rparr>,
       \<lparr>lap_driver_number = 3, lap_number = 1, lap_date_start = Some 0, lap_duration = Some 92\<rparr>,
       \<lparr>lap_driver_number = 1, lap_number = 2, lap_date_start = Some 90000, lap_duration = Some 95\<rparr>,
       \<lparr>lap_driver_number = 2, lap_number = 2, lap_date_start = Some 91000, lap_duration = Some 90\<rparr>,
       \<lparr>lap_driver_number = 3, lap_number = 2, lap_date_start = Some 92000, lap_duration = Some 100\<rparr>])
      (Resolved [])
     = Inr [\<lparr>ch_driver = CarNumber 2, ch_driver_number = 2, lap_start_pos = 2, lap_end_pos = 1,
             positions_gained = 1, status = ''GAINED''\<rparr>,
            \<lparr>ch_driver = CarNumber 3, ch_driver_number = 3, lap_start_pos = 3, lap_end_pos = 3,
             positions_gained = 0, status = ''SAME''\<rparr>,
            \<lparr>ch_driver = CarNumber 1, ch_driver_number = 1, lap_start_pos = 1, lap_end_pos = 2,
             positions_gained = - 1, status = ''LOST''\<rparr>]
   \<and> (\<exists>changes. position_change_summary 2 None
      (Resolved
      [\<lparr>lap_driver_number = 1, lap_number = 1, lap_date_start = Some 0, lap_duration = Some 90\<rparr>,
       \<lparr>lap_driver_number = 2, lap_number = 1, lap_date_start = Some 0, lap_duration = Some 91\<rparr>,
       \<lparr>lap_driver_number = 3, lap_number = 1, lap_date_start = Some 0, lap_duration = Some 92\<rparr>,
       \<lparr>lap_driver_number = 1, lap_number = 2, lap_date_start = Some 90000, lap_duration = Some 95\<rparr>,
       \<lparr>lap_driver_number = 2, lap_number = 2, lap_date_start = Some 91000, lap_duration = Some 90\<rparr>,
       \<lparr>lap_driver_number = 3, lap_number = 2, lap_date_start = Some 92000, lap_duration = Some 100\<rparr>])
      (Resolved []) = Inr changes
      \<and> ch_driver_number ` set changes = {1, 2, 3})"
proof -
  define laps where "laps =
      [\<lparr>lap_driver_number = 1, lap_number = 1, lap_date_start = Some 0, lap_duration = Some 90\<rparr>,
       \<lparr>lap_driver_number = 2, lap_number = 1, lap_date_start = Some 0, lap_duration = Some 91\<rparr>,
       \<lparr>lap_driver_number = 3, lap_number = 1, lap_date_start = Some 0, lap_duration = Some 92\<rparr>,
       \<lparr>lap_driver_number = 1, lap_number = 2, lap_date_start = Some 90000, lap_duration = Some 95\<rparr>,
       \<lparr>lap_driver_number = 2, lap_number = 2, lap_date_start = Some 91000, lap_duration = Some 90\<rparr>,
       \<lparr>lap_driver_number = 3, lap_number = 2, lap_date_start = Some 92000, lap_duration = Some 100\<rparr>]"
  have w1: "withFinish laps 1 = [(1, 90000), (2, 91000), (3, 92000)]"
    by (simp add: laps_def withFinish_def finish_time_def ms_of_def num_of_def)
  have w2: "withFinish laps 2 = [(2, 181000), (1, 185000), (3, 192000)]"
    by (simp add: laps_def withFinish_def finish_time_def ms_of_def num_of_def)
  have r: "position_change_summary 2 None (Resolved laps) (Resolved [])
     = Inr [\<lparr>ch_driver = CarNumber 2, ch_driver_number = 2, lap_start_pos = 2, lap_end_pos = 1,
             positions_gained = 1, status = ''GAINED''\<rparr>,
            \<lparr>ch_driver = CarNumber 3, ch_driver_number = 3, lap_start_pos = 3, lap_end_pos = 3,
             positions_gained = 0, status = ''SAME''\<rparr>,
            \<lparr>ch_driver = CarNumber 1, ch_driver_number = 1, lap_start_pos = 1, lap_end_pos = 2,
             positions_gained = - 1, status = ''LOST''\<rparr>]"
    by (simp add: position_change_summary_def getLeaderboard_def w1 w2 posMap_of_def
          changes_of_def change_of_def obj_keys_def obj_get_def label_of_def dMap_of_def
          truthy_str_def)
  have h1: "(1::int) < 2" by simp
  have h2: "\<not> truthy_str None \<and> distinct [1::nat, 2, 3]
            \<and> map fst (withFinish laps (2 - 1)) = [1, 2, 3]
            \<and> map fst (withFinish laps 2) = [2, 1, 3]"
    by (simp add: w1 w2 truthy_str_def)
  note t = position_change_summary_ranks[of 2 None laps "[]", THEN conjunct1, rule_format, OF h1]
  then obtain changes where
    c: "position_change_summary 2 None (Resolved laps) (Resolved []) = Inr changes"
    and ex: "\<forall>a b c.
                \<not> truthy_str None \<and> distinct [a, b, c]
                \<and> map fst (withFinish laps (2 - 1)) = [a, b, c]
                \<and> map fst (withFinish laps 2) = [b, a, c] \<longrightarrow>
                ch_driver_number ` set changes = {a, b, c}
                \<and> (\<forall>ch\<in>set changes.
                      (ch_driver_number ch = a \<longrightarrow> positions_gained ch = - 1)
                      \<and> (ch_driver_number ch = b \<longrightarrow> positions_gained ch = 1)
                      \<and> (ch_driver_number ch = c \<longrightarrow> positions_gained ch = 0))"
    by (elim exE conjE)
  from ex[rule_format, OF h2] have "ch_driver_number ` set changes = {1, 2, 3}"
    by (rule conjunct1)
  with c have e: "\<exists>changes. position_change_summary 2 None (Resolved laps) (Resolved [])
                    = Inr changes \<and> ch_driver_number ` set changes = {1, 2, 3}"
    by (intro exI conjI)
  have m1: "map fst (withFinish laps 1) = [1, 2, 3]" by (simp add: w1)
  have m2: "map fst (withFinish laps 2) = [2, 1, 3]" by (simp add: w2)
  from m1 m2 r e show ?thesis unfolding laps_def by (intro conjI)
qed

section \<open>Race-control summary: the strict driver filter\<close>

lemma digit_char_is_digit: "d < 10 \<Longrightarrow> is_digit (digit_char d)"
  by (simp add: is_digit_def digit_char_def)

lemma show_nat_digits: "show_nat n \<noteq> [] \<and> (\<forall>c\<in>set (show_nat n). is_digit c)"
proof (induction n rule: show_nat.induct)
  case (1 n)
  show ?case
  proof (cases "n < 10")
    case True
    then show ?thesis by (simp add: show_nat.simps[of n] digit_char_is_digit)
  next
    case False
    with 1 have "\<forall>c\<in>set (show_nat (n div 10)). is_digit c" by simp
    moreover have "is_digit (digit_char (n mod 10))" by (simp add: digit_char_is_digit)
    ultimately show ?thesis using False by (simp add: show_nat.simps[of n])
  qed
qed

lemma word_last_show_nat: "is_word_char (last (show_nat n))"
proof -
  have "last (show_nat n) \<in> set (show_nat n)" using show_nat_digits by simp
  then have "is_digit (last (show_nat n))" using show_nat_digits by blast
  then show ?thesis by (simp add: is_word_char_def)
qed

lemma match_here_iff:
  assumes "lit \<noteq> []"
  shows "match_here lit prev s \<longleftrightarrow>
     (\<exists>post. s = lit @ post \<and> word_at prev \<noteq> word_at (Some (hd lit))
        \<and> word_at (Some (last lit)) \<noteq> word_at (hd_opt post))"
proof
  assume m: "match_here lit prev s"
  then have "prefix lit s" by (simp add: match_here_def)
  then obtain post where p: "s = lit @ post" by (auto simp: prefix_def)
  with assms have h: "hd_opt s = Some (hd lit)" by (cases lit) (simp_all add: hd_opt_def)
  from p have d: "drop (length lit) s = post" by simp
  from m h d assms have "word_at prev \<noteq> word_at (Some (hd lit))
        \<and> word_at (Some (last lit)) \<noteq> word_at (hd_opt post)"
    by (simp add: match_here_def)
  with p show "\<exists>post. s = lit @ post \<and> word_at prev \<noteq> word_at (Some (hd lit))
        \<and> word_at (Some (last lit)) \<noteq> word_at (hd_opt post)" by blast
next
  assume "\<exists>post. s = lit @ post \<and> word_at prev \<noteq> word_at (Some (hd lit))
        \<and> word_at (Some (last lit)) \<noteq> word_at (hd_opt post)"
  then obtain post where p: "s = lit @ post"
    and w: "word_at prev \<noteq> word_at (Some (hd lit))"
      "word_at (Some (last lit)) \<noteq> word_at (hd_opt post)" by blast
  from p assms have h: "hd_opt s = Some (hd lit)" by (cases lit) (simp_all add: hd_opt_def)
  from p have d: "drop (length lit) s = post" by simp
  from p have "prefix lit s" by simp
  with w h d assms show "match_here lit prev s" by (simp add: match_here_def)
qed

lemma regex_search_iff:
  assumes "lit \<noteq> []"
  shows "regex_search lit prev s \<longleftrightarrow>
     (\<exists>pre post. s = pre @ lit @ post
        \<and> word_at (if pre = [] then prev else Some (last pre)) \<noteq> word_at (Some (hd lit))
        \<and> word_at (Some (last lit)) \<noteq> word_at (hd_opt post))"
proof -
  define P where "P b post \<longleftrightarrow> word_at b \<noteq> word_at (Some (hd lit))
        \<and> word_at (Some (last lit)) \<noteq> word_at (hd_opt post)" for b post
  have here: "match_here lit b t \<longleftrightarrow> (\<exists>post. t = lit @ post \<and> P b post)" for b t
    unfolding P_def using match_here_iff[OF assms] by blast
  have "regex_search lit prev s \<longleftrightarrow>
     (\<exists>pre post. s = pre @ lit @ post \<and> P (if pre = [] then prev else Some (last pre)) post)"
  proof (induction s arbitrary: prev)
    case Nil
    from assms have "\<not> match_here lit prev []" by (simp add: match_here_def)
    moreover from assms have "\<not> (\<exists>pre post. [] = pre @ lit @ post
        \<and> P (if pre = [] then prev else Some (last pre)) post)" by simp
    ultimately show ?case by simp
  next
    case (Cons c cs)
    show ?case
    proof
      assume "regex_search lit prev (c # cs)"
      then consider "match_here lit prev (c # cs)" | "regex_search lit (Some c) cs" by auto
      then show "\<exists>pre post. c # cs = pre @ lit @ post
                   \<and> P (if pre = [] then prev else Some (last pre)) post"
      proof cases
        case 1
        then obtain post where "c # cs = lit @ post" "P prev post" using here by blast
        then have "c # cs = [] @ lit @ post \<and> P (if [] = [] then prev else Some (last [])) post"
          by simp
        then show ?thesis by blast
      next
        case 2
        then obtain pre post where p: "cs = pre @ lit @ post"
          and q: "P (if pre = [] then Some c else Some (last pre)) post"
          using Cons.IH by blast
        from p have "c # cs = (c # pre) @ lit @ post" by simp
        moreover have "(if c # pre = [] then prev else Some (last (c # pre)))
                       = (if pre = [] then Some c else Some (last pre))" by simp
        with q have "P (if c # pre = [] then prev else Some (last (c # pre))) post"
          by (simp only:)
        ultimately show ?thesis by blast
      qed
    next
      assume "\<exists>pre post. c # cs = pre @ lit @ post
                \<and> P (if pre = [] then prev else Some (last pre)) post"
      then obtain pre post where p: "c # cs = pre @ lit @ post"
        and q: "P (if pre = [] then prev else Some (last pre)) post" by blast
      show "regex_search lit prev (c # cs)"
      proof (cases pre)
        case Nil
        with p q have "c # cs = lit @ post \<and> P prev post" by simp
        then have "match_here lit prev (c # cs)" using here by blast
        then show ?thesis by simp
      next
        case (Cons x pre')
        with p have x: "x = c" and cs: "cs = pre' @ lit @ post" by simp_all
        have "(if x # pre' = [] then prev else Some (last (x # pre')))
              = (if pre' = [] then Some x else Some (last pre'))" by simp
        with q Cons x have "P (if pre' = [] then Some c else Some (last pre')) post"
          by (simp only:)
        with cs have "regex_search lit (Some c) cs" using Cons.IH by blast
        then show ?thesis by simp
      qed
    qed
  qed
  then show ?thesis unfolding P_def .
qed

lemma car_match_whole_word:
  "car_match (Some n) str \<longleftrightarrow>
     (\<exists>pre post. str = pre @ ''car '' @ show_nat n @ post
        \<and> (pre = [] \<or> \<not> is_word_char (last pre))
        \<and> (post = [] \<or> \<not> is_word_char (hd post)))"
proof -
  let ?lit = "''car '' @ show_nat n"
  have ne: "?lit \<noteq> []" by simp
  have l: "last ?lit = last (show_nat n)" using show_nat_digits by simp
  have w1: "word_at (Some (hd ?lit))"
    by (simp add: word_at_def is_word_char_def is_lower_def)
  have w2: "word_at (Some (last ?lit))"
    unfolding l by (simp add: word_at_def word_last_show_nat)
  have p: "word_at (if pre = [] then None else Some (last pre))
           \<longleftrightarrow> \<not> (pre = [] \<or> \<not> is_word_char (last pre))" for pre
    by (simp add: word_at_def)
  have q: "word_at (hd_opt post) \<longleftrightarrow> \<not> (post = [] \<or> \<not> is_word_char (hd post))" for post
    by (cases post) (simp_all add: word_at_def hd_opt_def)
  have "car_match (Some n) str \<longleftrightarrow>
     (\<exists>pre post. str = pre @ ?lit @ post
        \<and> word_at (if pre = [] then None else Some (last pre)) \<noteq> word_at (Some (hd ?lit))
        \<and> word_at (Some (last ?lit)) \<noteq> word_at (hd_opt post))"
    unfolding car_match_def num_string_def option.case by (rule regex_search_iff[OF ne])
  also have "\<dots> \<longleftrightarrow>
     (\<exists>pre post. str = pre @ ?lit @ post
        \<and> (pre = [] \<or> \<not> is_word_char (last pre))
        \<and> (post = [] \<or> \<not> is_word_char (hd post)))"
    unfolding p q using w1 w2 by blast
  finally show ?thesis by simp
qed

lemmas rc_eval =
  race_control_summary_def find_driverInfo_def strict_driver_filter_def lap_filter_def
  keyword_filter_def driver_only_def driver_filter_active_def keeps_def
  isTargetDriverEvent_def isGlobalEvent_def car_match_def num_string_def match_here_def
  word_at_def hd_opt_def msgLower_of_def globalKeywords_def globalCats_def globalFlags_def
  driver_matches_def ms_of_def js_string_eval

lemma race_control_driver_only:
  assumes "driver_filter_active tok ds info acr sur"
  shows "\<exists>out. race_control_summary (driver_only tok) (Resolved ds) (Resolved ms) lapData = Inr out
           \<and> set out = {m \<in> set ms. keeps (driver_number info) (toLowerCase acr)
                                        (toLowerCase sur) m}"
proof -
  from assms have d: "find_driverInfo (Some tok) (Resolved ds) = Inr (Some info)"
    by (simp add: driver_filter_active_def find_driverInfo_def)
  from assms have f: "strict_driver_filter (Some info) ms
        = Inr (filter (keeps (driver_number info) (toLowerCase acr) (toLowerCase sur)) ms)"
    by (simp add: driver_filter_active_def strict_driver_filter_def)
  from d f have "race_control_summary (driver_only tok) (Resolved ds) (Resolved ms) lapData
        = Inr (sort_key (\<lambda>m. ms_of (msg_date m))
                (filter (keeps (driver_number info) (toLowerCase acr) (toLowerCase sur)) ms))"
    by (simp add: race_control_summary_def driver_only_def lap_filter_def keyword_filter_def)
  then show ?thesis by simp
qed

lemma keeps_iff:
  "keeps dn acr sur m \<longleftrightarrow>
     msg_driver_number m = dn \<or> car_match dn (msgLower_of m)
     \<or> js_includes (msgLower_of m) (''('' @ acr @ '')'') \<or> js_includes (msgLower_of m) sur
     \<or> (\<not> truthy_num (msg_driver_number m) \<and> isGlobalEvent m)"
  by (auto simp: keeps_def isTargetDriverEvent_def)

lemma isGlobalEvent_iff:
  "isGlobalEvent m \<longleftrightarrow>
     (\<exists>kw\<in>set globalKeywords. sublist kw (msgLower_of m))
     \<or> (\<exists>c. msg_category m = Some c \<and> toLowerCase c \<in> set globalCats)
     \<or> (\<exists>c f. msg_category m = Some c \<and> toLowerCase c = ''flag''
            \<and> msg_flag m = Some f \<and> toLowerCase f \<in> set globalFlags)"
  by (auto simp: isGlobalEvent_def list_ex_iff js_includes_sublist split: option.splits)

lemma safety_car_global: "msg_category m = Some ''SafetyCar'' \<Longrightarrow> isGlobalEvent m"
proof -
  assume c: "msg_category m = Some ''SafetyCar''"
  have "toLowerCase ''SafetyCar'' \<in> set globalCats"
    by (simp add: globalCats_def js_string_eval)
  with c show ?thesis using isGlobalEvent_iff by blast
qed

text \<open>
  C1, as the claim words it: a message attributed to driver 1 with the text
  "CAR 18 yellow flag" is not included when filtering for driver "1". The first test of
  the filter is \<open>m.driver_number === driverNum\<close>: the message is attributed to the
  filtered driver and is retained, whatever its text.
\<close>

theorem race_control_attributed_counterexample:
  "race_control_summary (driver_only ''1'')
     (Resolved [\<lparr>driver_number = Some 1, name_acronym = Some ''VER'',
                 last_name = Some ''Verstappen'', full_name = Some ''Max Verstappen'',
                 position = Some 1\<rparr>,
                \<lparr>driver_number = Some 18, name_acronym = Some ''STR'',
                 last_name = Some ''Stroll'', full_name = Some ''Lance Stroll'',
                 position = Some 9\<rparr>])
     (Resolved [\<lparr>msg_date = Some 1709391600000, msg_lap_number = Some 3,
                 msg_category = Some ''Flag'', msg_flag = Some ''YELLOW'',
                 msg_message = Some ''CAR 18 yellow flag'', msg_driver_number = Some 1\<rparr>])
     (Resolved [])
   = Inr [\<lparr>msg_date = Some 1709391600000, msg_lap_number = Some 3,
           msg_category = Some ''Flag'', msg_flag = Some ''YELLOW'',
           msg_message = Some ''CAR 18 yellow flag'', msg_driver_number = Some 1\<rparr>]"
  by (simp add: rc_eval)

text \<open>
  C1, amended: when a driver filter is active in the race-control summary handler, a
  message is retained only if it is attributed to the filtered driver, or its lower-cased
  text holds "car <number>" with the number as a whole word, or the driver's acronym in
  parentheses, or the driver's surname, or it is an unattributed global event; every
  message attributed to the filtered driver is retained. In particular, for a roster with
  drivers 1 and 18 and the text "CAR 18 yellow flag": filtering for driver "18" includes
  the message, whether it is attributed to driver 1 or to driver 18; filtering for driver
  "1" does not include the message attributed to driver 18 ("car 1" does not match
  "car 18"), and includes the message attributed to driver 1, by its attribution.
\<close>

theorem race_control_car_word_boundary:
  "(car_match (Some n) str \<longleftrightarrow>
      (\<exists>pre post. str = pre @ ''car '' @ show_nat n @ post
         \<and> (pre = [] \<or> \<not> is_word_char (last pre))
         \<and> (post = [] \<or> \<not> is_word_char (hd post))))
   \<and> (driver_filter_active tok ds info acr sur \<longrightarrow>
        (\<exists>out. race_control_summary (driver_only tok) (Resolved ds) (Resolved ms) lapData = Inr out
           \<and> (\<forall>m\<in>set ms. msg_driver_number m = driver_number info \<longrightarrow> m \<in> set out)
           \<and> (\<forall>m\<in>set out.
                 m \<in> set ms
                 \<and> (msg_driver_number m = driver_number info
                    \<or> car_match (driver_number info) (msgLower_of m)
                    \<or> js_includes (msgLower_of m) (''('' @ toLowerCase acr @ '')'')
                    \<or> js_includes (msgLower_of m) (toLowerCase sur)
                    \<or> (\<not> truthy_num (msg_driver_number m) \<and> isGlobalEvent m)))))
   \<and> (\<forall>who\<in>set [1, 18].
        race_control_summary (driver_only ''18'')
          (Resolved [\<lparr>driver_number = Some 1, name_acronym = Some ''VER'',
                      last_name = Some ''Verstappen'', full_name = Some ''Max Verstappen'',
                      position = Some 1\<rparr>,
                     \<lparr>driver_number = Some 18, name_acronym = Some ''STR'',
                      last_name = Some ''Stroll'', full_name = Some ''Lance Stroll'',
                      position = Some 9\<rparr>])
          (Resolved [\<lparr>msg_date = Some 1709391600000, msg_lap_number = Some 3,
                      msg_category = Some ''Flag'', msg_flag = Some ''YELLOW'',
                      msg_message = Some ''CAR 18 yellow flag'', msg_driver_number = Some who\<rparr>])
          lapData
        = Inr [\<lparr>msg_date = Some 1709391600000, msg_lap_number = Some 3,
                msg_category = Some ''Flag'', msg_flag = Some ''YELLOW'',
                msg_message = Some ''CAR 18 yellow flag'', msg_driver_number = Some who\<rparr>])
   \<and> race_control_summary (driver_only ''1'')
        (Resolved [\<lparr>driver_number = Some 1, name_acronym = Some ''VER'',
                    last_name = Some ''Verstappen'', full_name = Some ''Max Verstappen'',
                    position = Some 1\<rparr>,
                   \<lparr>driver_number = Some 18, name_acronym = Some ''STR'',
                    last_name = Some ''Stroll'', full_name = Some ''Lance Stroll'',
                    position = Some 9\<rparr>])
        (Resolved [\<lparr>msg_date = Some 1709391600000, msg_lap_number = Some 3,
                    msg_category = Some ''Flag'', msg_flag = Some ''YELLOW'',
                    msg_message = Some ''CAR 18 yellow flag'', msg_driver_number = Some 18\<rparr>])
        lapData
      = Inr []
   \<and> race_control_summary (driver_only ''1'')
        (Resolved [\<lparr>driver_number = Some 1, name_acronym = Some ''VER'',
                    last_name = Some ''Verstappen'', full_name = Some ''Max Verstappen'',
                    position = Some 1\<rparr>,
                   \<lparr>driver_number = Some 18, name_acronym = Some ''STR'',
                    last_name = Some ''Stroll'', full_name = Some ''Lance Stroll'',
                    position = Some 9\<rparr>])
        (Resolved [\<lparr>msg_date = Some 1709391600000, msg_lap_number = Some 3,
                    msg_category = Some ''Flag'', msg_flag = Some ''YELLOW'',
                    msg_message = Some ''CAR 18 yellow flag'', msg_driver_number = Some 1\<rparr>])
        lapData
      = Inr [\<lparr>msg_date = Some 1709391600000, msg_lap_number = Some 3,
              msg_category = Some ''Flag'', msg_flag = Some ''YELLOW'',
              msg_message = Some ''CAR 18 yellow flag'', msg_driver_number = Some 1\<rparr>]"
proof -
  have general: "\<exists>out. race_control_summary (driver_only tok) (Resolved ds) (Resolved ms) lapData
                        = Inr out
           \<and> (\<forall>m\<in>set ms. msg_driver_number m = driver_number info \<longrightarrow> m \<in> set out)
           \<and> (\<forall>m\<in>set out.
                 m \<in> set ms
                 \<and> (msg_driver_number m = driver_number info
                    \<or> car_match (driver_number info) (msgLower_of m)
                    \<or> js_includes (msgLower_of m) (''('' @ toLowerCase acr @ '')'')
                    \<or> js_includes (msgLower_of m) (toLowerCase sur)
                    \<or> (\<not> truthy_num (msg_driver_number m) \<and> isGlobalEvent m)))"
    if a: "driver_filter_active tok ds info acr sur"
  proof -
    from a obtain out where
      r: "race_control_summary (driver_only tok) (Resolved ds) (Resolved ms) lapData = Inr out"
      and s: "set out = {m \<in> set ms. keeps (driver_number info) (toLowerCase acr)
                                        (toLowerCase sur) m}"
      using race_control_driver_only by blast
    have 1: "\<forall>m\<in>set ms. msg_driver_number m = driver_number info \<longrightarrow> m \<in> set out"
      unfolding s by (simp add: keeps_iff)
    have 2: "\<forall>m\<in>set out.
                 m \<in> set ms
                 \<and> (msg_driver_number m = driver_number info
                    \<or> car_match (driver_number info) (msgLower_of m)
                    \<or> js_includes (msgLower_of m) (''('' @ toLowerCase acr @ '')'')
                    \<or> js_includes (msgLower_of m) (toLowerCase sur)
                    \<or> (\<not> truthy_num (msg_driver_number m) \<and> isGlobalEvent m))"
      unfolding s by (simp add: keeps_iff)
    from r 1 2 show ?thesis by blast
  qed
  have c18: "\<forall>who\<in>set [1, 18].
        race_control_summary (driver_only ''18'')
          (Resolved [\<lparr>driver_number = Some 1, name_acronym = Some ''VER'',
                      last_name = Some ''Verstappen'', full_name = Some ''Max Verstappen'',
                      position = Some 1\<rparr>,
                     \<lparr>driver_number = Some 18, name_acronym = Some ''STR'',
                      last_name = Some ''Stroll'', full_name = Some ''Lance Stroll'',
                      position = Some 9\<rparr>])
          (Resolved [\<lparr>msg_date = Some 1709391600000, msg_lap_number = Some 3,
                      msg_category = Some ''Flag'', msg_flag = Some ''YELLOW'',
                      msg_message = Some ''CAR 18 yellow flag'', msg_driver_number = Some who\<rparr>])
          lapData
        = Inr [\<lparr>msg_date = Some 1709391600000, msg_lap_number = Some 3,
                msg_category = Some ''Flag'', msg_flag = Some ''YELLOW'',
                msg_message = Some ''CAR 18 yellow flag'', msg_driver_number = Some who\<rparr>]"
    by (simp add: rc_eval)
  have c1: "race_control_summary (driver_only ''1'')
        (Resolved [\<lparr>driver_number = Some 1, name_acronym = Some ''VER'',
                    last_name = Some ''Verstappen'', full_name = Some ''Max Verstappen'',
                    position = Some 1\<rparr>,
                   \<lparr>driver_number = Some 18, name_acronym = Some ''STR'',
                    last_name = Some ''Stroll'', full_name = Some ''Lance Stroll'',
                    position = Some 9\<rparr>])
        (Resolved [\<lparr>msg_date = Some 1709391600000, msg_lap_number = Some 3,
                    msg_category = Some ''Flag'', msg_flag = Some ''YELLOW'',
                    msg_message = Some ''CAR 18 yellow flag'', msg_driver_number = Some 18\<rparr>])
        lapData
      = Inr []"
    by (simp add: rc_eval)
  have c11: "race_control_summary (driver_only ''1'')
        (Resolved [\<lparr>driver_number = Some 1, name_acronym = Some ''VER'',
                    last_name = Some ''Verstappen'', full_name = Some ''Max Verstappen'',
                    position = Some 1\<rparr>,
                   \<lparr>driver_number = Some 18, name_acronym = Some ''STR'',
                    last_name = Some ''Stroll'', full_name = Some ''Lance Stroll'',
                    position = Some 9\<rparr>])
        (Resolved [\<lparr>msg_date = Some 1709391600000, msg_lap_number = Some 3,
                    msg_category = Some ''Flag'', msg_flag = Some ''YELLOW'',
                    msg_message = Some ''CAR 18 yellow flag'', msg_driver_number = Some 1\<rparr>])
        lapData
      = Inr [\<lparr>msg_date = Some 1709391600000, msg_lap_number = Some 3,
              msg_category = Some ''Flag'', msg_flag = Some ''YELLOW'',
              msg_message = Some ''CAR 18 yellow flag'', msg_driver_number = Some 1\<rparr>]"
    by (simp add: rc_eval)
  from car_match_whole_word[of n str] general c18 c1 c11 show ?thesis by (intro conjI impI)
qed

theorem race_control_car_word_boundary_witness:
  "car_match (Some 18) ''car 18 yellow flag''
   \<and> \<not> car_match (Some 1) ''car 18 yellow flag''
   \<and> driver_filter_active ''18''
        [\<lparr>driver_number = Some 1, name_acronym = Some ''VER'',
          last_name = Some ''Verstappen'', full_name = Some ''Max Verstappen'',
          position = Some 1\<rparr>,
         \<lparr>driver_number = Some 18, name_acronym = Some ''STR'',
          last_name = Some ''Stroll'', full_name = Some ''Lance Stroll'',
          position = Some 9\<rparr>]
        \<lparr>driver_number = Some 18, name_acronym = Some ''STR'',
          last_name = Some ''Stroll'', full_name = Some ''Lance Stroll'',
          position = Some 9\<rparr> ''STR'' ''Stroll''
   \<and> (\<exists>out. race_control_summary (driver_only ''18'')
          (Resolved [\<lparr>driver_number = Some 1, name_acronym = Some ''VER'',
                      last_name = Some ''Verstappen'', full_name = Some ''Max Verstappen'',
                      position = Some 1\<rparr>,
                     \<lparr>driver_number = Some 18, name_acronym = Some ''STR'',
                      last_name = Some ''Stroll'', full_name = Some ''Lance Stroll'',
                      position = Some 9\<rparr>])
          (Resolved [\<lparr>msg_date = Some 1709391600000, msg_lap_number = Some 3,
                      msg_category = Some ''Flag'', msg_flag = Some ''YELLOW'',
                      msg_message = Some ''CAR 18 yellow flag'', msg_driver_number = Some 18\<rparr>])
          (Resolved []) = Inr out
        \<and> \<lparr>msg_date = Some 1709391600000, msg_lap_number = Some 3,
            msg_category = Some ''Flag'', msg_flag = Some ''YELLOW'',
            msg_message = Some ''CAR 18 yellow flag'', msg_driver_number = Some 18\<rparr> \<in> set out)"
proof -
  let ?roster = "[\<lparr>driver_number = Some 1, name_acronym = Some ''VER'',
          last_name = Some ''Verstappen'', full_name = Some ''Max Verstappen'',
          position = Some 1\<rparr>,
         \<lparr>driver_number = Some 18, name_acronym = Some ''STR'',
          last_name = Some ''Stroll'', full_name = Some ''Lance Stroll'',
          position = Some 9\<rparr>]"
  let ?info = "\<lparr>driver_number = Some 18, name_acronym = Some ''STR'',
          last_name = Some ''Stroll'', full_name = Some ''Lance Stroll'',
          position = Some 9\<rparr>"
  let ?m = "\<lparr>msg_date = Some 1709391600000, msg_lap_number = Some 3,
            msg_category = Some ''Flag'', msg_flag = Some ''YELLOW'',
            msg_message = Some ''CAR 18 yellow flag'', msg_driver_number = Some 18\<rparr>"
  have s: "show_nat 18 = ''18''" by (simp add: js_string_eval)
  have occ: "''car 18 yellow flag'' = [] @ ''car '' @ show_nat 18 @ '' yellow flag''
             \<and> ([] = [] \<or> \<not> is_word_char (last []))
             \<and> ('' yellow flag'' = [] \<or> \<not> is_word_char (hd '' yellow flag''))"
    by (simp add: s js_string_eval)
  note iff = race_control_car_word_boundary
               [of 18 "''car 18 yellow flag''" "''18''" ?roster ?info "''STR''" "''Stroll''"
                   "[?m]" "Resolved []", THEN conjunct1]
  from occ have a: "car_match (Some 18) ''car 18 yellow flag''"
    unfolding iff by (intro exI)
  have b: "\<not> car_match (Some 1) ''car 18 yellow flag''" by (simp add: rc_eval)
  have act: "driver_filter_active ''18'' ?roster ?info ''STR'' ''Stroll''"
    by (simp add: rc_eval)
  note run = race_control_car_word_boundary
               [of 18 "''car 18 yellow flag''" "''18''" ?roster ?info "''STR''" "''Stroll''"
                   "[?m]" "Resolved []", THEN conjunct2, THEN conjunct1, rule_format, OF act]
  then obtain out where
    r: "race_control_summary (driver_only ''18'') (Resolved ?roster) (Resolved [?m])
          (Resolved []) = Inr out"
    and k: "\<forall>m\<in>set [?m]. msg_driver_number m = driver_number ?info \<longrightarrow> m \<in> set out"
    by (elim exE conjE)
  from k have "?m \<in> set out" by simp
  with r have e: "\<exists>out. race_control_summary (driver_only ''18'') (Resolved ?roster)
                     (Resolved [?m]) (Resolved []) = Inr out \<and> ?m \<in> set out"
    by (intro exI conjI)
  from a b act e show ?thesis by (intro conjI)
qed

text \<open>
  C2, as the claim words it: a message with no driver attribution is retained if and only
  if it is a recognized session-wide event. The filter first asks whether the message
  mentions the filtered driver: an unattributed track-limits notice that names car 1 is
  no session-wide event, and is retained under the filter for driver 1.
\<close>

theorem race_control_unattributed_counterexample:
  "race_control_summary (driver_only ''1'')
     (Resolved [\<lparr>driver_number = Some 1, name_acronym = Some ''VER'',
                 last_name = Some ''Verstappen'', full_name = Some ''Max Verstappen'',
                 position = Some 1\<rparr>])
     (Resolved [\<lparr>msg_date = Some 1709391600000, msg_lap_number = Some 12,
                 msg_category = Some ''Other'', msg_flag = None,
                 msg_message = Some ''CAR 1 (VER) TIME 1:32.185 DELETED - TRACK LIMITS'',
                 msg_driver_number = None\<rparr>])
     (Resolved [])
   = Inr [\<lparr>msg_date = Some 1709391600000, msg_lap_number = Some 12,
           msg_category = Some ''Other'', msg_flag = None,
           msg_message = Some ''CAR 1 (VER) TIME 1:32.185 DELETED - TRACK LIMITS'',
           msg_driver_number = None\<rparr>]
   \<and> \<not> isGlobalEvent
         \<lparr>msg_date = Some 1709391600000, msg_lap_number = Some 12,
          msg_category = Some ''Other'', msg_flag = None,
          msg_message = Some ''CAR 1 (VER) TIME 1:32.185 DELETED - TRACK LIMITS'',
          msg_driver_number = None\<rparr>"
  by (simp add: rc_eval)

text \<open>
  C2, amended: under an active driver filter, for every message with no driver-number
  attribution that does not itself match the filtered driver (by attribution, by
  "car <number>", by the acronym in parentheses or by the surname), the race-control
  summary handler retains it if and only if it is a recognized session-wide event: a
  global keyword in the message text, a global category code, or a flag category carrying
  green, chequered, red or yellow. In particular an undirected message with category
  "SafetyCar" is retained under every active driver filter, and an undirected generic
  blue-flag message that does not name the filtered driver is excluded.
\<close>

theorem race_control_global_passthrough:
  "(driver_filter_active tok ds info acr sur \<longrightarrow>
      (\<exists>out. race_control_summary (driver_only tok) (Resolved ds) (Resolved ms) lapData = Inr out
         \<and> (\<forall>m\<in>set ms.
               \<not> truthy_num (msg_driver_number m)
               \<and> \<not> isTargetDriverEvent (driver_number info) (toLowerCase acr) (toLowerCase sur) m
               \<longrightarrow> (m \<in> set out \<longleftrightarrow> isGlobalEvent m))
         \<and> (\<forall>m\<in>set ms.
               msg_driver_number m = None \<and> msg_category m = Some ''SafetyCar''
               \<longrightarrow> m \<in> set out)))
   \<and> (isGlobalEvent m \<longleftrightarrow>
        (\<exists>kw\<in>set globalKeywords. sublist kw (msgLower_of m))
        \<or> (\<exists>c. msg_category m = Some c \<and> toLowerCase c \<in> set globalCats)
        \<or> (\<exists>c f. msg_category m = Some c \<and> toLowerCase c = ''flag''
               \<and> msg_flag m = Some f \<and> toLowerCase f \<in> set globalFlags))
   \<and> race_control_summary (driver_only ''1'')
        (Resolved [\<lparr>driver_number = Some 1, name_acronym = Some ''VER'',
                    last_name = Some ''Verstappen'', full_name = Some ''Max Verstappen'',
                    position = Some 1\<rparr>])
        (Resolved [\<lparr>msg_date = Some 1709391600000, msg_lap_number = Some 12,
                    msg_category = Some ''Flag'', msg_flag = Some ''BLUE'',
                    msg_message = Some ''WAVED BLUE FLAG FOR CAR 2 (SAR) TIMED AT 15:32:55'',
                    msg_driver_number = None\<rparr>,
                   \<lparr>msg_date = Some 1709391700000, msg_lap_number = Some 13,
                    msg_category = Some ''SafetyCar'', msg_flag = None,
                    msg_message = Some ''SAFETY CAR DEPLOYED'', msg_driver_number = None\<rparr>])
        lapData
      = Inr [\<lparr>msg_date = Some 1709391700000, msg_lap_number = Some 13,
              msg_category = Some ''SafetyCar'', msg_flag = None,
              msg_message = Some ''SAFETY CAR DEPLOYED'', msg_driver_number = None\<rparr>]"
proof -
  have general: "\<exists>out. race_control_summary (driver_only tok) (Resolved ds) (Resolved ms) lapData
                        = Inr out
         \<and> (\<forall>m\<in>set ms.
               \<not> truthy_num (msg_driver_number m)
               \<and> \<not> isTargetDriverEvent (driver_number info) (toLowerCase acr) (toLowerCase sur) m
               \<longrightarrow> (m \<in> set out \<longleftrightarrow> isGlobalEvent m))
         \<and> (\<forall>m\<in>set ms.
               msg_driver_number m = None \<and> msg_category m = Some ''SafetyCar''
               \<longrightarrow> m \<in> set out)"
    if a: "driver_filter_active tok ds info acr sur"
  proof -
    from a obtain out where
      r: "race_control_summary (driver_only tok) (Resolved ds) (Resolved ms) lapData = Inr out"
      and s: "set out = {m \<in> set ms. keeps (driver_number info) (toLowerCase acr)
                                        (toLowerCase sur) m}"
      using race_control_driver_only by blast
    have 1: "\<forall>m\<in>set ms.
               \<not> truthy_num (msg_driver_number m)
               \<and> \<not> isTargetDriverEvent (driver_number info) (toLowerCase acr) (toLowerCase sur) m
               \<longrightarrow> (m \<in> set out \<longleftrightarrow> isGlobalEvent m)"
      unfolding s by (simp add: keeps_def)
    have 2: "\<forall>m\<in>set ms.
               msg_driver_number m = None \<and> msg_category m = Some ''SafetyCar''
               \<longrightarrow> m \<in> set out"
      unfolding s using safety_car_global by (simp add: keeps_def truthy_num_def)
    from r 1 2 show ?thesis by blast
  qed
  have blue: "race_control_summary (driver_only ''1'')
        (Resolved [\<lparr>driver_number = Some 1, name_acronym = Some ''VER'',
                    last_name = Some ''Verstappen'', full_name = Some ''Max Verstappen'',
                    position = Some 1\<rparr>])
        (Resolved [\<lparr>msg_date = Some 1709391600000, msg_lap_number = Some 12,
                    msg_category = Some ''Flag'', msg_flag = Some ''BLUE'',
                    msg_message = Some ''WAVED BLUE FLAG FOR CAR 2 (SAR) TIMED AT 15:32:55'',
                    msg_driver_number = None\<rparr>,
                   \<lparr>msg_date = Some 1709391700000, msg_lap_number = Some 13,
                    msg_category = Some ''SafetyCar'', msg_flag = None,
                    msg_message = Some ''SAFETY CAR DEPLOYED'', msg_driver_number = None\<rparr>])
        lapData
      = Inr [\<lparr>msg_date = Some 1709391700000, msg_lap_number = Some 13,
              msg_category = Some ''SafetyCar'', msg_flag = None,
              msg_message = Some ''SAFETY CAR DEPLOYED'', msg_driver_number = None\<rparr>]"
    by (simp add: rc_eval)
  from general isGlobalEvent_iff[of m] blue show ?thesis by (intro conjI impI)
qed

theorem race_control_global_passthrough_witness:
  "driver_filter_active ''ver''
        [\<lparr>driver_number = Some 1, name_acronym = Some ''VER'',
          last_name = Some ''Verstappen'', full_name = Some ''Max Verstappen'',
          position = Some 1\<rparr>]
        \<lparr>driver_number = Some 1, name_acronym = Some ''VER'',
          last_name = Some ''Verstappen'', full_name = Some ''Max Verstappen'',
          position = Some 1\<rparr> ''VER'' ''Verstappen''
   \<and> \<not> isTargetDriverEvent (Some 1) ''ver'' ''verstappen''
         \<lparr>msg_date = Some 1709391700000, msg_lap_number = Some 13,
          msg_category = Some ''Flag'', msg_flag = Some ''BLUE'',
          msg_message = Some ''BLUE FLAG'', msg_driver_number = None\<rparr>
   \<and> \<not> isGlobalEvent
         \<lparr>msg_date = Some 1709391700000, msg_lap_number = Some 13,
          msg_category = Some ''Flag'', msg_flag = Some ''BLUE'',
          msg_message = Some ''BLUE FLAG'', msg_driver_number = None\<rparr>
   \<and> (\<exists>out. race_control_summary (driver_only ''ver'')
          (Resolved [\<lparr>driver_number = Some 1, name_acronym = Some ''VER'',
                      last_name = Some ''Verstappen'', full_name = Some ''Max Verstappen'',
                      position = Some 1\<rparr>])
          (Resolved [\<lparr>msg_date = Some 1709391700000, msg_lap_number = Some 13,
                      msg_category = Some ''Flag'', msg_flag = Some ''BLUE'',
                      msg_message = Some ''BLUE FLAG'', msg_driver_number = None\<rparr>,
                     \<lparr>msg_date = Some 1709391700000, msg_lap_number = Some 13,
                      msg_category = Some ''SafetyCar'', msg_flag = None,
                      msg_message = None, msg_driver_number = None\<rparr>])
          (Resolved []) = Inr out
        \<and> \<lparr>msg_date = Some 1709391700000, msg_lap_number = Some 13,
            msg_category = Some ''Flag'', msg_flag = Some ''BLUE'',
            msg_message = Some ''BLUE FLAG'', msg_driver_number = None\<rparr> \<notin> set out
        \<and> \<lparr>msg_date = Some 1709391700000, msg_lap_number = Some 13,
            msg_category = Some ''SafetyCar'', msg_flag = None,
            msg_message = None, msg_driver_number = None\<rparr> \<in> set out)"
proof -
  let ?info = "\<lparr>driver_number = Some 1, name_acronym = Some ''VER'',
          last_name = Some ''Verstappen'', full_name = Some ''Max Verstappen'',
          position = Some 1\<rparr>"
  let ?blue = "\<lparr>msg_date = Some 1709391700000, msg_lap_number = Some 13,
          msg_category = Some ''Flag'', msg_flag = Some ''BLUE'',
          msg_message = Some ''BLUE FLAG'', msg_driver_number = None\<rparr>"
  let ?sc = "\<lparr>msg_date = Some 1709391700000, msg_lap_number = Some 13,
            msg_category = Some ''SafetyCar'', msg_flag = None,
            msg_message = None, msg_driver_number = None\<rparr>"
  have act: "driver_filter_active ''ver'' [?info] ?info ''VER'' ''Verstappen''"
    by (simp add: rc_eval)
  have low: "toLowerCase ''VER'' = ''ver''" "toLowerCase ''Verstappen'' = ''verstappen''"
    by (simp_all add: js_string_eval)
  have nt: "\<not> isTargetDriverEvent (Some 1) ''ver'' ''verstappen'' ?blue"
    by (simp add: rc_eval)
  have ng: "\<not> isGlobalEvent ?blue" by (simp add: rc_eval)
  have un: "\<not> truthy_num (msg_driver_number ?blue)" by (simp add: truthy_num_def)
  note run = race_control_global_passthrough
               [of "''ver''" "[?info]" ?info "''VER''" "''Verstappen''" "[?blue, ?sc]"
                   "Resolved []", THEN conjunct1, rule_format, OF act]
  then obtain out where
    r: "race_control_summary (driver_only ''ver'') (Resolved [?info]) (Resolved [?blue, ?sc])
          (Resolved []) = Inr out"
    and g: "\<forall>m\<in>set [?blue, ?sc].
               \<not> truthy_num (msg_driver_number m)
               \<and> \<not> isTargetDriverEvent (driver_number ?info) (toLowerCase ''VER'')
                     (toLowerCase ''Verstappen'') m
               \<longrightarrow> (m \<in> set out \<longleftrightarrow> isGlobalEvent m)"
    and k: "\<forall>m\<in>set [?blue, ?sc].
               msg_driver_number m = None \<and> msg_category m = Some ''SafetyCar''
               \<longrightarrow> m \<in> set out"
    by (elim exE conjE)
  from g have "\<not> truthy_num (msg_driver_number ?blue)
               \<and> \<not> isTargetDriverEvent (driver_number ?info) (toLowerCase ''VER'')
                     (toLowerCase ''Verstappen'') ?blue
               \<longrightarrow> (?blue \<in> set out \<longleftrightarrow> isGlobalEvent ?blue)"
    by simp
  with un nt low ng have b: "?blue \<notin> set out" by simp
  from k have s: "?sc \<in> set out" by simp
  from r b s have e: "\<exists>out. race_control_summary (driver_only ''ver'') (Resolved [?info])
                     (Resolved [?blue, ?sc]) (Resolved []) = Inr out
                     \<and> ?blue \<notin> set out \<and> ?sc \<in> set out"
    by (intro exI conjI)
  from act nt ng e show ?thesis by (intro conjI)
qed

end
